theory Spec2Isabelle
  imports Complex_Main "HOL-Library.Sublist"
begin

section \<open>Numbers of the host language\<close>

text \<open>
  The program is TypeScript; every \<open>number\<close> is an IEEE double. The model keeps the one
  non-numeric value the program tests for (\<open>NaN\<close>, the "undefined" sentinel of the
  angle sequences) and idealises every finite double as a real: arithmetic is exact,
  without rounding or overflow, and the infinities are not modelled. \<open>NaN\<close> is
  absorbing under arithmetic and makes every comparison false, as in the host language.
\<close>

datatype jsnum = NaN | Fin real

definition isNaN :: "jsnum \<Rightarrow> bool" where
  "isNaN v = (case v of NaN \<Rightarrow> True | Fin _ \<Rightarrow> False)"

definition js_lift2 :: "(real \<Rightarrow> real \<Rightarrow> real) \<Rightarrow> jsnum \<Rightarrow> jsnum \<Rightarrow> jsnum" where
  "js_lift2 f a b =
     (case a of NaN \<Rightarrow> NaN
      | Fin x \<Rightarrow> (case b of NaN \<Rightarrow> NaN | Fin y \<Rightarrow> Fin (f x y)))"

definition js_add :: "jsnum \<Rightarrow> jsnum \<Rightarrow> jsnum" where
  "js_add = js_lift2 (+)"

definition js_sub :: "jsnum \<Rightarrow> jsnum \<Rightarrow> jsnum" where
  "js_sub = js_lift2 (-)"

definition js_mul :: "jsnum \<Rightarrow> jsnum \<Rightarrow> jsnum" where
  "js_mul = js_lift2 (*)"

text \<open>
  Division: the program only divides by \<open>Math.PI\<close> and by a positive counter, so a zero
  divisor (an infinity or \<open>NaN\<close> in the host language) never reaches this function; the
  model answers \<open>NaN\<close> there.
\<close>

definition js_div :: "jsnum \<Rightarrow> jsnum \<Rightarrow> jsnum" where
  "js_div a b =
     (case a of NaN \<Rightarrow> NaN
      | Fin x \<Rightarrow> (case b of NaN \<Rightarrow> NaN | Fin y \<Rightarrow> if y = 0 then NaN else Fin (x / y)))"

definition js_abs :: "jsnum \<Rightarrow> jsnum" where
  "js_abs v = (case v of NaN \<Rightarrow> NaN | Fin x \<Rightarrow> Fin \<bar>x\<bar>)"

definition js_max :: "jsnum \<Rightarrow> jsnum \<Rightarrow> jsnum" where
  "js_max = js_lift2 max"

definition js_lt :: "jsnum \<Rightarrow> jsnum \<Rightarrow> bool" where
  "js_lt a b =
     (case a of NaN \<Rightarrow> False
      | Fin x \<Rightarrow> (case b of NaN \<Rightarrow> False | Fin y \<Rightarrow> x < y))"

definition js_gt :: "jsnum \<Rightarrow> jsnum \<Rightarrow> bool" where
  "js_gt a b = js_lt b a"

text \<open>
  \<open>Math.atan2(y, x)\<close>: the angle of the point \<open>(x, y)\<close> in \<open>(-\<pi>, \<pi>]\<close>, and \<open>0\<close> at
  the origin (signed zeros are not modelled).
\<close>

definition atan2_real :: "real \<Rightarrow> real \<Rightarrow> real" where
  "atan2_real y x =
     (if 0 < x then arctan (y / x)
      else if x < 0 then (if 0 \<le> y then arctan (y / x) + pi else arctan (y / x) - pi)
      else if 0 < y then pi / 2
      else if y < 0 then - (pi / 2)
      else 0)"

definition Math_atan2 :: "jsnum \<Rightarrow> jsnum \<Rightarrow> jsnum" where
  "Math_atan2 = js_lift2 atan2_real"

definition Math_PI :: jsnum where
  "Math_PI = Fin pi"

section \<open>Landmark vocabulary and frame data\<close>

datatype PoseLandmark =
  LEFT_SHOULDER | RIGHT_SHOULDER | LEFT_ELBOW | RIGHT_ELBOW | LEFT_WRIST | RIGHT_WRIST

fun landmarkValue :: "PoseLandmark \<Rightarrow> nat" where
  "landmarkValue LEFT_SHOULDER = 0"
| "landmarkValue RIGHT_SHOULDER = 1"
| "landmarkValue LEFT_ELBOW = 2"
| "landmarkValue RIGHT_ELBOW = 3"
| "landmarkValue LEFT_WRIST = 4"
| "landmarkValue RIGHT_WRIST = 5"

fun landmarkName :: "PoseLandmark \<Rightarrow> string" where
  "landmarkName LEFT_SHOULDER = ''LEFT_SHOULDER''"
| "landmarkName RIGHT_SHOULDER = ''RIGHT_SHOULDER''"
| "landmarkName LEFT_ELBOW = ''LEFT_ELBOW''"
| "landmarkName RIGHT_ELBOW = ''RIGHT_ELBOW''"
| "landmarkName LEFT_WRIST = ''LEFT_WRIST''"
| "landmarkName RIGHT_WRIST = ''RIGHT_WRIST''"

definition allLandmarks :: "PoseLandmark list" where
  "allLandmarks =
     [LEFT_SHOULDER, RIGHT_SHOULDER, LEFT_ELBOW, RIGHT_ELBOW, LEFT_WRIST, RIGHT_WRIST]"

definition LIMB_CONNECTIONS :: "(PoseLandmark \<times> PoseLandmark) list" where
  "LIMB_CONNECTIONS =
     [(LEFT_SHOULDER, LEFT_ELBOW),
      (LEFT_ELBOW, LEFT_WRIST),
      (RIGHT_SHOULDER, RIGHT_ELBOW),
      (RIGHT_ELBOW, RIGHT_WRIST)]"

text \<open>
  A landmark array is a host-language array of coordinate pairs that may be shorter than
  the vocabulary or have holes: an entry is \<open>None\<close> where the array has no element.
\<close>

type_synonym point = "jsnum \<times> jsnum"
type_synonym landmarks = "point option list"

record FrameData =
  frame_id :: string
  frame_landmarks :: landmarks
  frame_angles :: "jsnum list"
  frameNumber :: jsnum

text \<open>Reading an array at an index: \<open>undefined\<close> (here \<open>None\<close>) outside the array.\<close>

definition landmarkAt :: "landmarks \<Rightarrow> nat \<Rightarrow> point option" where
  "landmarkAt frameLandmarks i =
     (if i < length frameLandmarks then frameLandmarks ! i else None)"

section \<open>Angle extractor\<close>

definition toDegrees :: "jsnum \<Rightarrow> jsnum" where
  "toDegrees radians = js_mul radians (js_div (Fin 180) Math_PI)"

text \<open>
  The body of the loop of \<open>calculateLimbAngles\<close> for one connection; the \<open>catch\<close>
  branch is the value \<open>NaN\<close>.
\<close>

definition limbAngle :: "landmarks \<Rightarrow> PoseLandmark \<times> PoseLandmark \<Rightarrow> jsnum" where
  "limbAngle frameLandmarks c =
     (case landmarkAt frameLandmarks (landmarkValue (fst c)) of
        None \<Rightarrow> NaN
      | Some startPoint \<Rightarrow>
         (case landmarkAt frameLandmarks (landmarkValue (snd c)) of
            None \<Rightarrow> NaN
          | Some endPoint \<Rightarrow>
             (let dx = js_sub (fst endPoint) (fst startPoint);
                  dy = js_sub (snd endPoint) (snd startPoint);
                  angle = Math_atan2 dx dy;
                  normalizedAngle =
                    (if js_lt angle (Fin 0) then js_add (js_mul (Fin 2) Math_PI) angle
                     else angle);
                  finalAngle =
                    (if js_gt normalizedAngle Math_PI
                     then js_sub (js_mul (Fin 2) Math_PI) normalizedAngle
                     else normalizedAngle)
              in toDegrees finalAngle)))"

fun limbAnglesLoop ::
  "landmarks \<Rightarrow> (PoseLandmark \<times> PoseLandmark) list \<Rightarrow> jsnum list \<Rightarrow> jsnum list" where
  "limbAnglesLoop frameLandmarks [] limbAngles = limbAngles"
| "limbAnglesLoop frameLandmarks (c # cs) limbAngles =
     limbAnglesLoop frameLandmarks cs (limbAngles @ [limbAngle frameLandmarks c])"

definition calculateLimbAngles :: "landmarks \<Rightarrow> jsnum list" where
  "calculateLimbAngles frameLandmarks =
     (let frameAngles = [];
          limbAngles = limbAnglesLoop frameLandmarks LIMB_CONNECTIONS []
      in frameAngles @ limbAngles)"

text \<open>
  The arithmetic of that loop body on the displacement \<open>(dx, dy)\<close>, as a function of its
  own: \<open>limbAngle\<close> applies it to the two coordinate differences.
\<close>

definition foldedAngle :: "jsnum \<Rightarrow> jsnum \<Rightarrow> jsnum" where
  "foldedAngle dx dy =
     (let angle = Math_atan2 dx dy;
          normalizedAngle =
            (if js_lt angle (Fin 0) then js_add (js_mul (Fin 2) Math_PI) angle
             else angle);
          finalAngle =
            (if js_gt normalizedAngle Math_PI
             then js_sub (js_mul (Fin 2) Math_PI) normalizedAngle
             else normalizedAngle)
      in toDegrees finalAngle)"

section \<open>Difference scorer\<close>

text \<open>
  \<open>computeAngleDifference\<close>: the loop runs \<open>i\<close> over the reference angles and writes
  \<open>differences[i]\<close>. The array has exactly \<open>i\<close> elements when index \<open>i\<close> is written, so
  the write appends. \<open>practice.angles[i] !== undefined\<close> holds exactly when the practice
  array has an element at \<open>i\<close> (an array of numbers has no \<open>undefined\<close> element).
\<close>

function diffLoop :: "jsnum list \<Rightarrow> jsnum list \<Rightarrow> nat \<Rightarrow> jsnum list \<Rightarrow> jsnum list" where
  "diffLoop refAngles pracAngles i differences =
     (if i < length refAngles then
        diffLoop refAngles pracAngles (i + 1)
          (differences @
             [if i < length pracAngles then js_sub (pracAngles ! i) (refAngles ! i)
              else Fin 0])
      else differences)"
  by pat_completeness auto
termination
  by (relation "measure (\<lambda>(r, p, i, d). length r - i)") auto

declare diffLoop.simps [simp del]

definition computeAngleDifference :: "FrameData \<Rightarrow> FrameData \<Rightarrow> jsnum list" where
  "computeAngleDifference reference practice =
     diffLoop (frame_angles reference) (frame_angles practice) 0 []"

fun accuracyLoop :: "jsnum list \<Rightarrow> jsnum \<Rightarrow> nat \<Rightarrow> jsnum \<times> nat" where
  "accuracyLoop [] sum_acc count = (sum_acc, count)"
| "accuracyLoop (val # vals) sum_acc count =
     (if \<not> isNaN val then accuracyLoop vals (js_add sum_acc (js_abs val)) (count + 1)
      else accuracyLoop vals sum_acc count)"

definition calculateAccuracy :: "jsnum list \<Rightarrow> jsnum" where
  "calculateAccuracy differences =
     (let vals = differences in
      if length vals = 0 then Fin 0
      else
        (case accuracyLoop vals (Fin 0) 0 of
           (sum_acc, count) \<Rightarrow>
             if count = 0 then Fin 0
             else
               (let avgDiff = js_div sum_acc (Fin (real count))
                in js_max (Fin 0) (js_sub (Fin 100) avgDiff))))"

text \<open>
  The accuracy as the specification words it: over the numeric deltas only,
  \<open>max(0, 100 - mean |delta|)\<close>, and \<open>0\<close> when there is none.
\<close>

fun numericDeltas :: "jsnum list \<Rightarrow> real list" where
  "numericDeltas [] = []"
| "numericDeltas (NaN # ds) = numericDeltas ds"
| "numericDeltas (Fin x # ds) = x # numericDeltas ds"

definition specAccuracy :: "jsnum list \<Rightarrow> real" where
  "specAccuracy ds =
     (let vs = numericDeltas ds in
      if vs = [] then 0
      else max 0 (100 - sum_list (map abs vs) / real (length vs)))"

section \<open>Strings of the host language\<close>

text \<open>
  Strings are modelled as \<open>string\<close> and are taken to be ASCII, as the program's own
  texts are; text outside ASCII is not in the model. The white space that \<open>trim\<close> removes
  is the ASCII part of the host language's white space and line terminators (tab, line
  feed, vertical tab, form feed, carriage return, space).
\<close>

definition newline :: string where
  "newline = [CHR 0x0A]"

fun join :: "string \<Rightarrow> string list \<Rightarrow> string" where
  "join sep [] = []"
| "join sep [x] = x"
| "join sep (x # y # ys) = x @ sep @ join sep (y # ys)"

definition digitChar :: "nat \<Rightarrow> char" where
  "digitChar d = ''0123456789'' ! d"

text \<open>The decimal text of a natural number, as the host language prints an integer.\<close>

fun natToString :: "nat \<Rightarrow> string" where
  "natToString n =
     (if n < 10 then [digitChar n] else natToString (n div 10) @ [digitChar (n mod 10)])"

declare natToString.simps [simp del]

text \<open>The number that a string of decimal digits denotes, to say what a printed number means.\<close>

definition digitIndex :: "char \<Rightarrow> nat" where
  "digitIndex c = of_char c - 48"

definition digitsValue :: "string \<Rightarrow> nat" where
  "digitsValue s = foldl (\<lambda>v c. 10 * v + digitIndex c) 0 s"

text \<open>
  \<open>Number.prototype.toFixed\<close> by the steps of the language standard: \<open>NaN\<close> prints as
  its name; a negative value prints a minus sign and its magnitude; the magnitude is
  scaled by \<open>10^f\<close> and rounded to the nearest integer, the larger one on a tie; its
  digits are padded to \<open>f + 1\<close> places and the point is put before the last \<open>f\<close>.
  From \<open>10^21\<close> on, the standard prints the number as the general number-to-string
  conversion does; that conversion depends on the binary representation and is the
  parameter \<open>numberToString\<close>.
\<close>

definition toFixed :: "(real \<Rightarrow> string) \<Rightarrow> nat \<Rightarrow> jsnum \<Rightarrow> string" where
  "toFixed numberToString f v =
     (case v of
        NaN \<Rightarrow> ''NaN''
      | Fin x0 \<Rightarrow>
         (let s = (if x0 < 0 then ''-'' else []);
              x = \<bar>x0\<bar>
          in if 10 ^ 21 \<le> x then s @ numberToString x
             else
               (let n = nat \<lfloor>x * 10 ^ f + 1 / 2\<rfloor>;
                    m = natToString n
                in if f \<noteq> 0 then
                     (let m' = replicate (f + 1 - length m) (CHR ''0'') @ m;
                          k = length m'
                      in s @ take (k - f) m' @ ''.'' @ drop (k - f) m')
                   else s @ m)))"

text \<open>\<open>JSON.stringify\<close> of a landmark array: a hole and a \<open>NaN\<close> print as \<open>null\<close>.\<close>

definition jsonNumber :: "(real \<Rightarrow> string) \<Rightarrow> jsnum \<Rightarrow> string" where
  "jsonNumber numberToString v = (case v of NaN \<Rightarrow> ''null'' | Fin x \<Rightarrow> numberToString x)"

definition jsonPoint :: "(real \<Rightarrow> string) \<Rightarrow> point option \<Rightarrow> string" where
  "jsonPoint numberToString p =
     (case p of
        None \<Rightarrow> ''null''
      | Some xy \<Rightarrow>
          ''['' @ jsonNumber numberToString (fst xy) @ '','' @
          jsonNumber numberToString (snd xy) @ '']'')"

definition JSON_stringify :: "(real \<Rightarrow> string) \<Rightarrow> landmarks \<Rightarrow> string" where
  "JSON_stringify numberToString lms =
     ''['' @ join '','' (map (jsonPoint numberToString) lms) @ '']''"

definition isWhiteSpace :: "char \<Rightarrow> bool" where
  "isWhiteSpace c =
     (c = CHR 0x09 \<or> c = CHR 0x0A \<or> c = CHR 0x0B \<or> c = CHR 0x0C \<or> c = CHR 0x0D \<or> c = CHR '' '')"

definition trim :: "string \<Rightarrow> string" where
  "trim s = rev (dropWhile isWhiteSpace (rev (dropWhile isWhiteSpace s)))"

text \<open>\<open>s.split(c)\<close> for a one-character separator: the empty string gives one empty piece.\<close>

fun splitOn :: "char \<Rightarrow> string \<Rightarrow> string list" where
  "splitOn c [] = [[]]"
| "splitOn c (x # xs) =
     (if x = c then [] # splitOn c xs
      else (case splitOn c xs of [] \<Rightarrow> [[x]] | w # ws \<Rightarrow> (x # w) # ws))"

text \<open>
  \<open>s.replace(/^\[|\]$/g, "")\<close>: an opening bracket that is the first character and a
  closing bracket that is the last character are removed.
\<close>

definition stripBrackets :: "string \<Rightarrow> string" where
  "stripBrackets s =
     (let s1 = (if s \<noteq> [] \<and> hd s = CHR ''['' then tl s else s)
      in if s1 \<noteq> [] \<and> last s1 = CHR '']'' then butlast s1 else s1)"

section \<open>The enum object\<close>

text \<open>
  A numeric enum compiles to an object that maps each value to its name and each name to
  its value. \<open>Object.entries\<close> lists the integer keys first, then the names in
  declaration order.
\<close>

datatype enumval = EStr string | ENum nat

definition PoseLandmark_entries :: "(string \<times> enumval) list" where
  "PoseLandmark_entries =
     map (\<lambda>l. (natToString (landmarkValue l), EStr (landmarkName l))) allLandmarks @
     map (\<lambda>l. (landmarkName l, ENum (landmarkValue l))) allLandmarks"

text \<open>
  \<open>lm in PoseLandmark\<close> holds for every property name of the enum object: the landmark
  names, the decimal strings of the landmark values, and the names of the properties that
  every object inherits.
\<close>

definition Object_prototype_keys :: "string list" where
  "Object_prototype_keys =
     [''constructor'', ''__defineGetter__'', ''__defineSetter__'', ''hasOwnProperty'',
      ''__lookupGetter__'', ''__lookupSetter__'', ''isPrototypeOf'',
      ''propertyIsEnumerable'', ''toString'', ''valueOf'', ''__proto__'',
      ''toLocaleString'']"

definition inPoseLandmark :: "string \<Rightarrow> bool" where
  "inPoseLandmark lm = (lm \<in> set (map fst PoseLandmark_entries @ Object_prototype_keys))"

section \<open>Prompt builder\<close>

text \<open>\<open>Object.entries\<close> of an array: each element with its index as a decimal string.\<close>

definition Object_entries :: "jsnum list \<Rightarrow> (string \<times> jsnum) list" where
  "Object_entries differences = zip (map natToString [0..<length differences]) differences"

definition angleLine :: "(real \<Rightarrow> string) \<Rightarrow> string \<times> jsnum \<Rightarrow> string" where
  "angleLine numberToString e =
     ''- '' @ fst e @ '': difference = '' @ toFixed numberToString 2 (snd e)"

definition angleFeedback :: "(real \<Rightarrow> string) \<Rightarrow> jsnum list \<Rightarrow> string" where
  "angleFeedback numberToString differences =
     join newline (map (angleLine numberToString) (Object_entries differences))"

definition limbConnectionsString :: string where
  "limbConnectionsString =
     join '', '' (map (\<lambda>c. landmarkName (fst c) @ '' to '' @ landmarkName (snd c))
                      LIMB_CONNECTIONS)"

definition poseEnumString :: string where
  "poseEnumString =
     join newline
       (map (\<lambda>e. (case snd e of ENum v \<Rightarrow> natToString v | EStr t \<Rightarrow> t) @ '' = '' @ fst e)
          (filter (\<lambda>e. (case snd e of ENum _ \<Rightarrow> True | EStr _ \<Rightarrow> False))
             PoseLandmark_entries))"

definition promptHeader :: "string list" where
  "promptHeader =
     [[],
      ''You are a professional dance or movement coach AI.'',
      ''You are given differences between a reference choreography pose and a user's practice pose.'',
      [],
      ''Analyze these angle differences and provide constructive, encouraging feedback'',
      ''with clear instructions on how the user can improve their form.'',
      [],
      ''DATA:'']"

definition promptInstructions :: "string list" where
  "promptInstructions =
     [[],
      ''Make sure to add a concise note on potential landmark detection issues at the end if:'',
      ''1. If there is a landmark coordinate (don't mention angles) that is extremely different from other coordinates'',
      ''within that set of reference or practice pose, highlight it as a potential mis-detection of the joint. DO NOT attempt'',
      ''to give any feedback on any angle involving that joint.'',
      ''2. If an angle is NaN, it means one of the joints involved in that angle is missing. Mention the specific missing joints'',
      ''using the LimbConnections and PoseLandmark enum reference.'',
      [],
      ''Respond with a short, natural paragraph explaining:'',
      ''1. Identify which body parts need adjustment based on the angle differences'',
      ''(DO NOT including any angles involving a joint that's an outlier).'',
      ''3. For mismatches, provide concise coaching tips for improvement.'',
      ''4. Provide a motivational remark to encourage the user.'',
      [],
      [],
      []]"

definition createFeedbackPrompt ::
  "(real \<Rightarrow> string) \<Rightarrow> jsnum list \<Rightarrow> jsnum \<Rightarrow> FrameData \<Rightarrow> FrameData \<Rightarrow> string" where
  "createFeedbackPrompt numberToString differences accuracyValue referenceFrameData
       practiceFrameData =
     (let refLandmarks = frame_landmarks referenceFrameData;
          practiceLandmarks = frame_landmarks practiceFrameData
      in join newline
           (promptHeader @
            [''Accuracy Score: '' @ toFixed numberToString 1 accuracyValue @ ''%'',
             ''Angle Differences:'',
             angleFeedback numberToString differences,
             ''LimbConnections associated with each angle for reference:'',
             limbConnectionsString,
             [],
             ''Reference Landmarks Coordinates (PoseLandmark enum index order):'',
             JSON_stringify numberToString refLandmarks,
             ''Practice Landmarks Coordinates (PoseLandmark enum index order):'',
             JSON_stringify numberToString practiceLandmarks,
             ''PoseLandmark enum for reference:'',
             poseEnumString] @
            promptInstructions))"

section \<open>Response validator\<close>

definition createCheckExistingLandmarkPrompt :: "string \<Rightarrow> string" where
  \<open>createCheckExistingLandmarkPrompt feedback =
     join newline
       [''given this feedback '' @ feedback @ '', give me a list of all the joints'',
        ''mentioned in the feedback in one list in this format:'',
        ''[JOINT_A, JOINT_B, ...]'',
        ''1. Only include joints that are mentioned in the feedback.'',
        ''2. Use all caps and seperate words with underscores "_".'']\<close>

definition createCheckMoodPrompt :: "string \<Rightarrow> string" where
  \<open>createCheckMoodPrompt feedback =
     join newline
       [''given this feedback '' @ feedback @
          '', is the overall mood of the feedback positive?'',
        ''Respond with one word "TRUE" or "FALSE".'']\<close>

datatype error =
  NotFound string
| UnknownLandmark string
| LLMFailure

fun validateLoop :: "string list \<Rightarrow> error + unit" where
  "validateLoop [] = Inr ()"
| "validateLoop (lm # lms) =
     (if \<not> inPoseLandmark lm then Inl (UnknownLandmark lm) else validateLoop lms)"

definition validateExistingLandmarks :: "string \<Rightarrow> error + unit" where
  "validateExistingLandmarks existingLandmarksStr =
     (let landmarks = map trim (splitOn (CHR '','') (stripBrackets existingLandmarksStr))
      in validateLoop landmarks)"

section \<open>Feedback store and the analysis\<close>

record FeedbackEntry =
  feedbackID :: string
  referenceFrameData :: FrameData
  practiceFrameData :: FrameData
  feedback :: string
  accuracyValue :: jsnum

text \<open>
  \<open>getFeedback\<close> reads the list and returns it as it found it, with the result or the
  error.
\<close>

definition getFeedback ::
  "string \<Rightarrow> FeedbackEntry list \<Rightarrow> (error + string \<times> jsnum) \<times> FeedbackEntry list" where
  "getFeedback fid feedbackList =
     (case find (\<lambda>f. feedbackID f = fid) feedbackList of
        None \<Rightarrow> (Inl (NotFound fid), feedbackList)
      | Some entry \<Rightarrow> (Inr (feedback entry, accuracyValue entry), feedbackList))"

text \<open>
  The text-generation service is outside the program: one call takes the request text and
  the service's state and gives the response, or \<open>None\<close> when the call fails, and the
  service's next state. \<open>analyze\<close> threads the feedback list and the service through
  its three calls; each failure leaves with the list as it is at that point. The mood and
  length checks only print to the console, which is not part of the state.
\<close>

definition analyze ::
  "(real \<Rightarrow> string) \<Rightarrow> (string \<Rightarrow> 'l \<Rightarrow> string option \<times> 'l) \<Rightarrow> FrameData \<Rightarrow> FrameData \<Rightarrow>
   FeedbackEntry list \<times> 'l \<Rightarrow> (error + string) \<times> (FeedbackEntry list \<times> 'l)" where
  "analyze numberToString executeLLM reference practice st =
     (let feedbackList = fst st;
          diff = computeAngleDifference reference practice;
          accuracy = calculateAccuracy diff;
          prompt = createFeedbackPrompt numberToString diff accuracy reference practice
      in case executeLLM prompt (snd st) of
           (None, l1) \<Rightarrow> (Inl LLMFailure, (feedbackList, l1))
         | (Some aiFeedback, l1) \<Rightarrow>
            (let fid = ''fb-'' @ frame_id reference @ ''-'' @ frame_id practice;
                 entry = \<lparr>feedbackID = fid,
                          referenceFrameData = reference,
                          practiceFrameData = practice,
                          feedback = aiFeedback,
                          accuracyValue = accuracy\<rparr>;
                 feedbackList' = feedbackList @ [entry];
                 checkLandmarkPromt = createCheckExistingLandmarkPrompt aiFeedback
             in case executeLLM checkLandmarkPromt l1 of
                  (None, l2) \<Rightarrow> (Inl LLMFailure, (feedbackList', l2))
                | (Some existingLandmarks, l2) \<Rightarrow>
                   (case validateExistingLandmarks existingLandmarks of
                      Inl e \<Rightarrow> (Inl e, (feedbackList', l2))
                    | Inr _ \<Rightarrow>
                       (let checkMoodPrompt = createCheckMoodPrompt aiFeedback
                        in case executeLLM checkMoodPrompt l2 of
                             (None, l3) \<Rightarrow> (Inl LLMFailure, (feedbackList', l3))
                           | (Some isPositive, l3) \<Rightarrow> (Inr fid, (feedbackList', l3))))))"

text \<open>
  Names for two values that \<open>analyze\<close> computes: the request text of its first call and
  the record it appends once that call has answered.
\<close>

definition feedbackPromptOf :: "(real \<Rightarrow> string) \<Rightarrow> FrameData \<Rightarrow> FrameData \<Rightarrow> string" where
  "feedbackPromptOf numberToString reference practice =
     createFeedbackPrompt numberToString (computeAngleDifference reference practice)
       (calculateAccuracy (computeAngleDifference reference practice)) reference practice"

definition feedbackIDOf :: "FrameData \<Rightarrow> FrameData \<Rightarrow> string" where
  "feedbackIDOf reference practice = ''fb-'' @ frame_id reference @ ''-'' @ frame_id practice"

definition storedEntry :: "FrameData \<Rightarrow> FrameData \<Rightarrow> string \<Rightarrow> FeedbackEntry" where
  "storedEntry reference practice aiFeedback =
     \<lparr>feedbackID = ''fb-'' @ frame_id reference @ ''-'' @ frame_id practice,
      referenceFrameData = reference,
      practiceFrameData = practice,
      feedback = aiFeedback,
      accuracyValue = calculateAccuracy (computeAngleDifference reference practice)\<rparr>"

text \<open>The tokens that the vocabulary check examines, in order.\<close>

definition extractedTokens :: "string \<Rightarrow> string list" where
  "extractedTokens existingLandmarksStr =
     map trim (splitOn (CHR '','') (stripBrackets existingLandmarksStr))"

section \<open>Inputs of the repository's test cases\<close>

text \<open>
  The reference pose of the test cases, indexed by landmark value, and the pose of the
  missing-landmark test, whose array ends before the right wrist.
\<close>

definition refLandmarks :: landmarks where
  "refLandmarks =
     [Some (Fin 2, Fin 4), Some (Fin 4, Fin 4), Some (Fin 2, Fin 3),
      Some (Fin 4, Fin 3), Some (Fin 1, Fin 2), Some (Fin 5, Fin 2)]"

definition missingWristLandmarks :: landmarks where
  "missingWristLandmarks =
     [Some (Fin 2, Fin 4), Some (Fin 4, Fin 4), Some (Fin 2, Fin 3),
      Some (Fin 4, Fin 3), Some (Fin 1, Fin 2)]"

definition frameOf :: "string \<Rightarrow> landmarks \<Rightarrow> FrameData" where
  "frameOf name lms =
     \<lparr>frame_id = name, frame_landmarks = lms,
      frame_angles = calculateLimbAngles lms, frameNumber = Fin 1\<rparr>"

text \<open>The two frames of the perfect-pose test: the practice pose repeats the reference.\<close>

definition referencePose :: FrameData where
  "referencePose = frameOf ''reference'' refLandmarks"

definition practicePose :: FrameData where
  "practicePose = frameOf ''practice'' refLandmarks"

text \<open>A frame that carries a given angle sequence, for the scorer on its own.\<close>

definition anglesFrame :: "string \<Rightarrow> jsnum list \<Rightarrow> FrameData" where
  "anglesFrame name as =
     \<lparr>frame_id = name, frame_landmarks = [], frame_angles = as, frameNumber = Fin 1\<rparr>"

text \<open>
  A text-generation service for examples: it answers from a script, one entry per call
  (\<open>None\<close> for a failing call), and fails once the script is used up.
\<close>

definition scriptedLLM :: "string \<Rightarrow> string option list \<Rightarrow> string option \<times> string option list" where
  "scriptedLLM prompt script = (case script of [] \<Rightarrow> (None, []) | r # rs \<Rightarrow> (r, rs))"

text \<open>A number-to-string conversion for examples that never read its result.\<close>

definition numberToString_stub :: "real \<Rightarrow> string" where
  "numberToString_stub x = ''?''"

section \<open>Angle extractor: results\<close>

lemma limbAnglesLoop_map:
  "limbAnglesLoop lm cs acc = acc @ map (limbAngle lm) cs"
  by (induction cs arbitrary: acc) simp_all

lemma calculateLimbAngles_map:
  "calculateLimbAngles lm = map (limbAngle lm) LIMB_CONNECTIONS"
  by (simp add: calculateLimbAngles_def limbAnglesLoop_map)

lemma atan2_real_bounds: "- pi < atan2_real y x \<and> atan2_real y x \<le> pi"
proof -
  have a: "- (pi / 2) < arctan (y / x)" "arctan (y / x) < pi / 2"
    using arctan_lbound arctan_ubound by auto
  have neg: "x < 0 \<Longrightarrow> 0 \<le> y \<Longrightarrow> arctan (y / x) \<le> 0"
    by (simp add: divide_nonneg_neg)
  have pos: "x < 0 \<Longrightarrow> y < 0 \<Longrightarrow> 0 < arctan (y / x)"
    by (simp add: divide_neg_neg)
  show ?thesis
    using a neg pos pi_gt_zero by (auto simp: atan2_real_def)
qed

lemma foldedAngle_NaN: "foldedAngle NaN dy = NaN" "foldedAngle dx NaN = NaN"
  by (simp_all add: foldedAngle_def Math_atan2_def js_lift2_def js_lt_def js_gt_def
      toDegrees_def js_mul_def Math_PI_def split: jsnum.splits)

lemma foldedAngle_Fin:
  "foldedAngle (Fin x) (Fin y) =
     Fin ((let a = atan2_real x y;
               n = (if a < 0 then 2 * pi + a else a)
           in if pi < n then 2 * pi - n else n) * (180 / pi))"
  by (simp add: foldedAngle_def Math_atan2_def js_lift2_def js_lt_def js_gt_def toDegrees_def
      js_mul_def js_add_def js_sub_def js_div_def Math_PI_def Let_def)

lemma foldedAngle_range:
  "foldedAngle dx dy = NaN \<or> (\<exists>r. foldedAngle dx dy = Fin r \<and> 0 \<le> r \<and> r \<le> 180)"
proof (cases dx)
  case NaN
  then show ?thesis by (simp add: foldedAngle_NaN)
next
  case dx: (Fin x)
  show ?thesis
  proof (cases dy)
    case NaN
    then show ?thesis by (simp add: foldedAngle_NaN)
  next
    case dy: (Fin y)
    define a where "a = atan2_real x y"
    define f where
      "f = (let n = (if a < 0 then 2 * pi + a else a) in if pi < n then 2 * pi - n else n)"
    have ab: "- pi < a" "a \<le> pi"
      using atan2_real_bounds [of x y] by (auto simp: a_def)
    have fb: "0 \<le> f" "f \<le> pi"
      using ab by (auto simp: f_def Let_def)
    have rf: "foldedAngle dx dy = Fin (f * (180 / pi))"
      by (simp add: dx dy foldedAngle_Fin a_def f_def Let_def)
    have lo: "0 \<le> f * (180 / pi)"
      using fb by simp
    have "f * (180 / pi) \<le> pi * (180 / pi)"
      using fb by (intro mult_right_mono) auto
    then have hi: "f * (180 / pi) \<le> 180"
      by simp
    show ?thesis using rf lo hi by simp
  qed
qed

lemma limbAngle_folded:
  "limbAngle lm c =
     (case landmarkAt lm (landmarkValue (fst c)) of
        None \<Rightarrow> NaN
      | Some startPoint \<Rightarrow>
         (case landmarkAt lm (landmarkValue (snd c)) of
            None \<Rightarrow> NaN
          | Some endPoint \<Rightarrow>
              foldedAngle (js_sub (fst endPoint) (fst startPoint))
                          (js_sub (snd endPoint) (snd startPoint))))"
  by (simp add: limbAngle_def foldedAngle_def Let_def split: option.splits)

lemma limbAngle_range:
  "limbAngle lm c = NaN \<or> (\<exists>r. limbAngle lm c = Fin r \<and> 0 \<le> r \<and> r \<le> 180)"
  using foldedAngle_range by (simp add: limbAngle_folded split: option.splits)

lemma foldedAngle_down: "foldedAngle (Fin 0) (Fin (- 1)) = Fin 180"
  by (simp add: foldedAngle_Fin atan2_real_def Let_def)

lemma foldedAngle_down_left: "foldedAngle (Fin (- 1)) (Fin (- 1)) = Fin 135"
  by (simp add: foldedAngle_Fin atan2_real_def Let_def arctan_one)

lemma foldedAngle_down_right: "foldedAngle (Fin 1) (Fin (- 1)) = Fin 135"
  by (simp add: foldedAngle_Fin atan2_real_def Let_def arctan_one arctan_minus)

lemma refLandmarks_angles:
  "calculateLimbAngles refLandmarks = [Fin 180, Fin 135, Fin 180, Fin 135]"
  by (simp add: calculateLimbAngles_map LIMB_CONNECTIONS_def refLandmarks_def limbAngle_folded
      landmarkAt_def js_sub_def js_lift2_def foldedAngle_down foldedAngle_down_left
      foldedAngle_down_right)

lemma missingWristLandmarks_angles:
  "calculateLimbAngles missingWristLandmarks = [Fin 180, Fin 135, Fin 180, NaN]"
  by (simp add: calculateLimbAngles_map LIMB_CONNECTIONS_def missingWristLandmarks_def
      limbAngle_folded landmarkAt_def js_sub_def js_lift2_def foldedAngle_down
      foldedAngle_down_left)

text \<open>
  C4. For every landmark array, the angle sequence has exactly one entry per limb
  connection, the entry at position \<open>i\<close> is the angle of the \<open>i\<close>-th connection, and every
  entry is either the undefined sentinel \<open>NaN\<close> or a number within \<open>[0, 180]\<close>.
\<close>

theorem C4_angles_per_connection_in_range:
  "length (calculateLimbAngles lm) = length LIMB_CONNECTIONS \<and>
   (\<forall>i < length LIMB_CONNECTIONS.
      calculateLimbAngles lm ! i = limbAngle lm (LIMB_CONNECTIONS ! i) \<and>
      (calculateLimbAngles lm ! i = NaN \<or>
       (\<exists>r. calculateLimbAngles lm ! i = Fin r \<and> 0 \<le> r \<and> r \<le> 180)))"
  using limbAngle_range by (simp add: calculateLimbAngles_map)

theorem C4_witness:
  "(1::nat) < length LIMB_CONNECTIONS \<and>
   length (calculateLimbAngles missingWristLandmarks) = 4 \<and>
   calculateLimbAngles missingWristLandmarks ! 1 = Fin 135 \<and>
   calculateLimbAngles missingWristLandmarks ! 3 = NaN \<and>
   (calculateLimbAngles missingWristLandmarks ! 1 = NaN \<or>
    (\<exists>r. calculateLimbAngles missingWristLandmarks ! 1 = Fin r \<and> 0 \<le> r \<and> r \<le> 180))"
  using C4_angles_per_connection_in_range [of missingWristLandmarks]
  by (simp add: missingWristLandmarks_angles LIMB_CONNECTIONS_def)

text \<open>
  C7. The snapshot with left shoulder \<open>(2,4)\<close>, left elbow \<open>(2,3)\<close>, left wrist \<open>(1,2)\<close>,
  right shoulder \<open>(4,4)\<close>, right elbow \<open>(4,3)\<close> and right wrist \<open>(5,2)\<close> gives the angle
  sequence \<open>[180, 135, 180, 135]\<close> degrees for the four connections in their fixed order.
\<close>

theorem C7_reference_snapshot_angles:
  "calculateLimbAngles
     [Some (Fin 2, Fin 4), Some (Fin 4, Fin 4), Some (Fin 2, Fin 3),
      Some (Fin 4, Fin 3), Some (Fin 1, Fin 2), Some (Fin 5, Fin 2)] =
   [Fin 180, Fin 135, Fin 180, Fin 135] \<and>
   LIMB_CONNECTIONS =
     [(LEFT_SHOULDER, LEFT_ELBOW), (LEFT_ELBOW, LEFT_WRIST),
      (RIGHT_SHOULDER, RIGHT_ELBOW), (RIGHT_ELBOW, RIGHT_WRIST)]"
  using refLandmarks_angles by (simp add: refLandmarks_def LIMB_CONNECTIONS_def)

section \<open>Difference scorer: results\<close>

lemma diffLoop_map:
  "diffLoop r p i acc =
     acc @ map (\<lambda>j. if j < length p then js_sub (p ! j) (r ! j) else Fin 0) [i..<length r]"
proof (induction r p i acc rule: diffLoop.induct)
  case (1 r p i acc)
  show ?case
  proof (cases "i < length r")
    case True
    then show ?thesis
      using "1.IH" by (subst diffLoop.simps) (simp add: upt_conv_Cons)
  next
    case False
    then show ?thesis by (subst diffLoop.simps) simp
  qed
qed

lemma computeAngleDifference_map:
  "computeAngleDifference reference practice =
     map (\<lambda>j. if j < length (frame_angles practice)
                then js_sub (frame_angles practice ! j) (frame_angles reference ! j)
                else Fin 0)
       [0..<length (frame_angles reference)]"
  by (simp add: computeAngleDifference_def diffLoop_map)

lemma computeAngleDifference_length:
  "length (computeAngleDifference reference practice) = length (frame_angles reference)"
  by (simp add: computeAngleDifference_map)

lemma computeAngleDifference_nth:
  "i < length (frame_angles reference) \<Longrightarrow>
   computeAngleDifference reference practice ! i =
     (if i < length (frame_angles practice)
      then js_sub (frame_angles practice ! i) (frame_angles reference ! i)
      else Fin 0)"
  by (simp add: computeAngleDifference_map)

lemma accuracyLoop_numeric:
  "accuracyLoop ds (Fin s) c =
     (Fin (s + sum_list (map abs (numericDeltas ds))), c + length (numericDeltas ds))"
proof (induction ds arbitrary: s c)
  case Nil
  then show ?case by simp
next
  case (Cons d ds)
  then show ?case
    by (cases d) (simp_all add: isNaN_def js_add_def js_abs_def js_lift2_def)
qed

lemma numericDeltas_Nil_length: "numericDeltas ds = [] \<longleftrightarrow> length (numericDeltas ds) = 0"
  by simp

lemma calculateAccuracy_spec: "calculateAccuracy ds = Fin (specAccuracy ds)"
proof (cases "numericDeltas ds = []")
  case True
  then show ?thesis
    by (simp add: calculateAccuracy_def specAccuracy_def accuracyLoop_numeric Let_def)
next
  case False
  then have "ds \<noteq> []" by auto
  with False show ?thesis
    by (simp add: calculateAccuracy_def specAccuracy_def accuracyLoop_numeric Let_def
        js_div_def js_max_def js_sub_def js_lift2_def)
qed

lemma specAccuracy_range: "0 \<le> specAccuracy ds \<and> specAccuracy ds \<le> 100"
proof -
  have "0 \<le> sum_list (map abs (numericDeltas ds)) / real (length (numericDeltas ds))"
    by (intro divide_nonneg_nonneg sum_list_nonneg) auto
  then show ?thesis
    by (simp add: specAccuracy_def Let_def)
qed

lemma numericDeltas_append: "numericDeltas (xs @ ys) = numericDeltas xs @ numericDeltas ys"
  by (induction xs rule: numericDeltas.induct) simp_all

lemma numericDeltas_drop_NaN:
  assumes "i < length ds" "ds ! i = NaN"
  shows "numericDeltas (take i ds @ drop (Suc i) ds) = numericDeltas ds"
proof -
  have "ds = take i ds @ NaN # drop (Suc i) ds"
    using assms id_take_nth_drop by metis
  then have "numericDeltas ds = numericDeltas (take i ds) @ numericDeltas (NaN # drop (Suc i) ds)"
    using numericDeltas_append by metis
  then show ?thesis by (simp add: numericDeltas_append)
qed

lemma calculateAccuracy_drop_NaN:
  "i < length ds \<Longrightarrow> ds ! i = NaN \<Longrightarrow>
   calculateAccuracy (take i ds @ drop (Suc i) ds) = calculateAccuracy ds"
  by (simp add: calculateAccuracy_spec specAccuracy_def numericDeltas_drop_NaN)

lemma js_sub_NaN: "js_sub NaN b = NaN" "js_sub a NaN = NaN"
  by (simp_all add: js_sub_def js_lift2_def split: jsnum.splits)

lemma js_sub_Fin: "js_sub (Fin y) (Fin x) = Fin (y - x)"
  by (simp add: js_sub_def js_lift2_def)

text \<open>
  C5. For every delta sequence the accuracy is \<open>max(0, 100 - mean |delta|)\<close> over the
  numeric deltas, it is \<open>0\<close> when no delta is numeric (the empty sequence included), and
  it always lies within \<open>[0, 100]\<close>.
\<close>

theorem C5_accuracy_formula_and_range:
  "calculateAccuracy ds = Fin (specAccuracy ds) \<and>
   (numericDeltas ds = [] \<longrightarrow> calculateAccuracy ds = Fin 0) \<and>
   calculateAccuracy [] = Fin 0 \<and>
   (\<exists>a. calculateAccuracy ds = Fin a \<and> 0 \<le> a \<and> a \<le> 100)"
  using specAccuracy_range [of ds]
  by (simp add: calculateAccuracy_spec specAccuracy_def)

text \<open>
  C6. For every pair of angle sequences and every position \<open>i\<close> of the reference
  sequence: where the practice sequence has no entry the delta is \<open>0\<close>; where it has one
  and either value is \<open>NaN\<close> the delta is \<open>NaN\<close>, and the accuracy is the one of the delta
  sequence without that position; where both values are numeric the delta is practice
  minus reference.
\<close>

theorem C6_delta_policy:
  assumes "i < length (frame_angles reference)"
  shows "(\<not> i < length (frame_angles practice) \<longrightarrow>
            computeAngleDifference reference practice ! i = Fin 0) \<and>
         (i < length (frame_angles practice) \<and>
            (frame_angles reference ! i = NaN \<or> frame_angles practice ! i = NaN) \<longrightarrow>
            computeAngleDifference reference practice ! i = NaN \<and>
            calculateAccuracy (computeAngleDifference reference practice) =
              calculateAccuracy
                (take i (computeAngleDifference reference practice) @
                 drop (Suc i) (computeAngleDifference reference practice))) \<and>
         (\<forall>x y. i < length (frame_angles practice) \<and>
            frame_angles reference ! i = Fin x \<and> frame_angles practice ! i = Fin y \<longrightarrow>
            computeAngleDifference reference practice ! i = Fin (y - x))"
proof -
  note nth = computeAngleDifference_nth [OF assms, of practice]
  have len: "i < length (computeAngleDifference reference practice)"
    using assms by (simp add: computeAngleDifference_length)
  have a: "\<not> i < length (frame_angles practice) \<longrightarrow>
            computeAngleDifference reference practice ! i = Fin 0"
    using nth by simp
  have b: "i < length (frame_angles practice) \<and>
            (frame_angles reference ! i = NaN \<or> frame_angles practice ! i = NaN) \<longrightarrow>
            computeAngleDifference reference practice ! i = NaN"
    using nth by (auto simp: js_sub_NaN)
  have c: "\<forall>x y. i < length (frame_angles practice) \<and>
            frame_angles reference ! i = Fin x \<and> frame_angles practice ! i = Fin y \<longrightarrow>
            computeAngleDifference reference practice ! i = Fin (y - x)"
    using nth by (simp add: js_sub_Fin)
  show ?thesis
    using a b c calculateAccuracy_drop_NaN [OF len] by metis
qed


lemma js_sub_self: "js_sub a a = (if a = NaN then NaN else Fin 0)"
  by (cases a) (simp_all add: js_sub_def js_lift2_def)

lemma numericDeltas_self:
  "numericDeltas (map (\<lambda>a. js_sub a a) as) = map (\<lambda>_. 0) (numericDeltas as)"
  by (induction as rule: numericDeltas.induct) (simp_all add: js_sub_self)

lemma numericDeltas_empty_iff: "numericDeltas as = [] \<longleftrightarrow> (\<forall>a \<in> set as. a = NaN)"
  by (induction as rule: numericDeltas.induct) simp_all

lemma sum_list_abs_zeros: "sum_list (map abs (map (\<lambda>_. 0::real) xs)) = 0"
  by (induction xs) simp_all

lemma computeAngleDifference_same:
  assumes "frame_angles practice = frame_angles reference"
  shows "computeAngleDifference reference practice =
           map (\<lambda>a. js_sub a a) (frame_angles reference)"
  by (rule nth_equalityI) (simp_all add: computeAngleDifference_map assms)

lemma specAccuracy_self:
  "specAccuracy (map (\<lambda>a. js_sub a a) as) = (if \<forall>a \<in> set as. a = NaN then 0 else 100)"
proof (cases "numericDeltas as = []")
  case True
  then show ?thesis
    by (simp add: specAccuracy_def numericDeltas_self numericDeltas_empty_iff)
next
  case False
  then have "\<not> (\<forall>a \<in> set as. a = NaN)"
    by (simp add: numericDeltas_empty_iff)
  then show ?thesis
    using False
    by (simp add: specAccuracy_def Let_def numericDeltas_self sum_list_abs_zeros
        del: map_map)
qed

lemma calculateAccuracy_self:
  "calculateAccuracy (map (\<lambda>a. js_sub a a) as) =
     (if \<forall>a \<in> set as. a = NaN then Fin 0 else Fin 100)"
  by (simp add: calculateAccuracy_spec specAccuracy_self)

lemma limbAngle_numeric:
  assumes "landmarkAt lm (landmarkValue (fst c)) = Some (Fin sx, Fin sy)"
      and "landmarkAt lm (landmarkValue (snd c)) = Some (Fin ex, Fin ey)"
  shows "limbAngle lm c \<noteq> NaN"
  using assms by (simp add: limbAngle_folded js_sub_Fin foldedAngle_Fin)

text \<open>
  C3, as amended. For identical reference and practice snapshots whose angles are the
  extractor's, the delta of a connection is \<open>0\<close> where its angle is numeric and \<open>NaN\<close>
  where it is undefined; the accuracy is \<open>100\<close> when some angle is numeric and \<open>0\<close> when
  none is. When every landmark is present with numeric coordinates, the deltas are all
  zero and the accuracy is \<open>100\<close>.
\<close>

theorem C3_identical_snapshots:
  assumes same: "frame_landmarks practice = frame_landmarks reference"
      and ref: "frame_angles reference = calculateLimbAngles (frame_landmarks reference)"
      and prac: "frame_angles practice = calculateLimbAngles (frame_landmarks practice)"
  shows "length (computeAngleDifference reference practice) = length LIMB_CONNECTIONS \<and>
         (\<forall>i < length LIMB_CONNECTIONS.
            computeAngleDifference reference practice ! i =
              (if frame_angles reference ! i = NaN then NaN else Fin 0)) \<and>
         calculateAccuracy (computeAngleDifference reference practice) =
           (if \<forall>a \<in> set (frame_angles reference). a = NaN then Fin 0 else Fin 100) \<and>
         ((\<forall>l. \<exists>x y. landmarkAt (frame_landmarks reference) (landmarkValue l) = Some (Fin x, Fin y))
            \<longrightarrow> computeAngleDifference reference practice = [Fin 0, Fin 0, Fin 0, Fin 0] \<and>
                calculateAccuracy (computeAngleDifference reference practice) = Fin 100)"
proof -
  let ?as = "frame_angles reference"
  let ?ds = "computeAngleDifference reference practice"
  have eq: "frame_angles practice = ?as"
    using same ref prac by simp
  have ds: "?ds = map (\<lambda>a. js_sub a a) ?as"
    using computeAngleDifference_same [OF eq] .
  have len: "length ?as = length LIMB_CONNECTIONS"
    by (simp add: ref calculateLimbAngles_map)
  have p1: "length ?ds = length LIMB_CONNECTIONS"
    by (simp add: ds len)
  have p2: "\<forall>i < length LIMB_CONNECTIONS. ?ds ! i = (if ?as ! i = NaN then NaN else Fin 0)"
    using len by (simp add: ds js_sub_self)
  have p3: "calculateAccuracy ?ds = (if \<forall>a \<in> set ?as. a = NaN then Fin 0 else Fin 100)"
    by (simp only: ds calculateAccuracy_self)
  have p4: "computeAngleDifference reference practice = [Fin 0, Fin 0, Fin 0, Fin 0] \<and>
            calculateAccuracy (computeAngleDifference reference practice) = Fin 100"
    if all: "\<forall>l. \<exists>x y. landmarkAt (frame_landmarks reference) (landmarkValue l) = Some (Fin x, Fin y)"
  proof -
    have num: "limbAngle (frame_landmarks reference) c \<noteq> NaN" for c
    proof -
      obtain sx sy where s: "landmarkAt (frame_landmarks reference) (landmarkValue (fst c)) = Some (Fin sx, Fin sy)"
        using all by blast
      obtain ex ey where e: "landmarkAt (frame_landmarks reference) (landmarkValue (snd c)) = Some (Fin ex, Fin ey)"
        using all by blast
      show ?thesis using limbAngle_numeric [OF s e] .
    qed
    have "?ds = [Fin 0, Fin 0, Fin 0, Fin 0]"
      by (simp add: ds ref calculateLimbAngles_map LIMB_CONNECTIONS_def js_sub_self num)
    moreover have "calculateAccuracy ?ds = Fin 100"
      using num by (simp add: p3) (simp add: ref calculateLimbAngles_map LIMB_CONNECTIONS_def)
    ultimately show ?thesis by simp
  qed
  show ?thesis using p1 p2 p3 p4 by blast
qed

lemma missing_diff:
  "computeAngleDifference (frameOf ''reference'' missingWristLandmarks)
       (frameOf ''practice'' missingWristLandmarks) = [Fin 0, Fin 0, Fin 0, NaN]"
  by (simp add: computeAngleDifference_map frameOf_def missingWristLandmarks_angles
      upt_conv_Cons js_sub_self)

lemma empty_angles: "calculateLimbAngles [] = [NaN, NaN, NaN, NaN]"
  by (simp add: calculateLimbAngles_map LIMB_CONNECTIONS_def limbAngle_folded landmarkAt_def)

lemma empty_acc:
  "calculateAccuracy (computeAngleDifference (frameOf ''reference'' []) (frameOf ''practice'' []))
     = Fin 0"
  by (simp add: computeAngleDifference_map frameOf_def empty_angles upt_conv_Cons js_sub_self
      calculateAccuracy_spec specAccuracy_def)

text \<open>
  C3 as stated fails: two identical snapshots without the right wrist give the sentinel,
  not zero, as fourth delta; two identical empty snapshots give the accuracy \<open>0\<close>.
\<close>

theorem C3_counterexample:
  "computeAngleDifference (frameOf ''reference'' missingWristLandmarks)
       (frameOf ''practice'' missingWristLandmarks) = [Fin 0, Fin 0, Fin 0, NaN] \<and>
   [Fin 0, Fin 0, Fin 0, NaN] \<noteq> [Fin 0, Fin 0, Fin 0, Fin 0] \<and>
   calculateAccuracy
     (computeAngleDifference (frameOf ''reference'' []) (frameOf ''practice'' [])) = Fin 0 \<and>
   Fin 0 \<noteq> Fin 100"
  using missing_diff empty_acc by simp

theorem C3_witness:
  "computeAngleDifference (frameOf ''reference'' refLandmarks) (frameOf ''practice'' refLandmarks)
     = [Fin 0, Fin 0, Fin 0, Fin 0] \<and>
   calculateAccuracy
     (computeAngleDifference (frameOf ''reference'' refLandmarks) (frameOf ''practice'' refLandmarks))
     = Fin 100"
proof -
  let ?r = "frameOf ''reference'' refLandmarks"
  let ?p = "frameOf ''practice'' refLandmarks"
  have same: "frame_landmarks ?p = frame_landmarks ?r"
    by (simp add: frameOf_def)
  have ref: "frame_angles ?r = calculateLimbAngles (frame_landmarks ?r)"
    by (simp add: frameOf_def)
  have prac: "frame_angles ?p = calculateLimbAngles (frame_landmarks ?p)"
    by (simp add: frameOf_def)
  have all: "\<forall>l. \<exists>x y. landmarkAt (frame_landmarks ?r) (landmarkValue l) = Some (Fin x, Fin y)"
  proof
    fix l
    show "\<exists>x y. landmarkAt (frame_landmarks ?r) (landmarkValue l) = Some (Fin x, Fin y)"
      by (cases l) (simp_all add: frameOf_def refLandmarks_def landmarkAt_def)
  qed
  show ?thesis
    using C3_identical_snapshots [OF same ref prac] all by blast
qed

theorem C6_witness:
  "computeAngleDifference (anglesFrame ''r'' [Fin 180, NaN, Fin 135, Fin 90])
       (anglesFrame ''p'' [Fin 170, Fin 10, Fin 135]) = [Fin (- 10), NaN, Fin 0, Fin 0] \<and>
   calculateAccuracy [Fin (- 10), NaN, Fin 0, Fin 0] = calculateAccuracy [Fin (- 10), Fin 0, Fin 0] \<and>
   calculateAccuracy [Fin (- 10), NaN, Fin 0, Fin 0] \<noteq>
     calculateAccuracy [Fin (- 10), Fin 0, Fin 0, Fin 0]"
proof -
  let ?r = "anglesFrame ''r'' [Fin 180, NaN, Fin 135, Fin 90]"
  let ?p = "anglesFrame ''p'' [Fin 170, Fin 10, Fin 135]"
  have len: "length (computeAngleDifference ?r ?p) = 4"
    by (simp add: computeAngleDifference_length anglesFrame_def)
  have d0: "computeAngleDifference ?r ?p ! 0 = Fin (- 10)"
    using C6_delta_policy [of 0 ?r ?p] by (simp add: anglesFrame_def)
  have d1: "computeAngleDifference ?r ?p ! 1 = NaN \<and>
            calculateAccuracy (computeAngleDifference ?r ?p) =
              calculateAccuracy (take 1 (computeAngleDifference ?r ?p) @
                                 drop (Suc 1) (computeAngleDifference ?r ?p))"
    using C6_delta_policy [of 1 ?r ?p] by (simp add: anglesFrame_def)
  have d2: "computeAngleDifference ?r ?p ! 2 = Fin 0"
    using C6_delta_policy [of 2 ?r ?p] by (simp add: anglesFrame_def)
  have d3: "computeAngleDifference ?r ?p ! 3 = Fin 0"
    using C6_delta_policy [of 3 ?r ?p] by (simp add: anglesFrame_def)
  have ds: "computeAngleDifference ?r ?p = [Fin (- 10), NaN, Fin 0, Fin 0]"
    using len d0 d1 d2 d3 by (intro nth_equalityI) (auto simp: less_Suc_eq numeral_eq_Suc)
  have zero: "calculateAccuracy [Fin (- 10), NaN, Fin 0, Fin 0] \<noteq>
              calculateAccuracy [Fin (- 10), Fin 0, Fin 0, Fin 0]"
    by (simp add: calculateAccuracy_spec specAccuracy_def)
  show ?thesis
    using d1 zero by (simp add: ds)
qed

theorem C5_witness:
  "numericDeltas [NaN, NaN] = [] \<and> calculateAccuracy [NaN, NaN] = Fin 0 \<and>
   calculateAccuracy [Fin 0, Fin 45, Fin 0, Fin 0] = Fin 88.75 \<and>
   calculateAccuracy [Fin 300, Fin (- 300)] = Fin 0"
  using C5_accuracy_formula_and_range [of "[NaN, NaN]"] C5_accuracy_formula_and_range [of "[Fin 0, Fin 45, Fin 0, Fin 0]"] C5_accuracy_formula_and_range [of "[Fin 300, Fin (- 300)]"]
  by (simp add: specAccuracy_def)

section \<open>Feedback store and analysis: results\<close>

lemma getFeedback_store: "snd (getFeedback fid store) = store"
  by (simp add: getFeedback_def split: option.splits)

lemma find_feedbackID_Some:
  "find (\<lambda>f. feedbackID f = fid) store = Some x \<Longrightarrow> x \<in> set store \<and> feedbackID x = fid"
  by (induction store) (auto split: if_splits)

lemma getFeedback_NotFound_iff:
  "(\<exists>err. fst (getFeedback fid store) = Inl err) \<longleftrightarrow> (\<forall>e \<in> set store. feedbackID e \<noteq> fid)"
proof (cases "find (\<lambda>f. feedbackID f = fid) store")
  case None
  then have "\<forall>e \<in> set store. feedbackID e \<noteq> fid"
    by (simp add: find_None_iff)
  then show ?thesis
    by (simp add: getFeedback_def None)
next
  case (Some x)
  then show ?thesis
    using find_feedbackID_Some [OF Some] by (auto simp: getFeedback_def)
qed

lemma getFeedback_NotFound:
  assumes "\<forall>e \<in> set store. feedbackID e \<noteq> fid"
  shows "fst (getFeedback fid store) = Inl (NotFound fid)"
proof -
  have "find (\<lambda>f. feedbackID f = fid) store = None"
    using assms by (simp add: find_None_iff)
  then show ?thesis by (simp add: getFeedback_def)
qed

lemma getFeedback_first:
  assumes "i < length store" "feedbackID (store ! i) = fid"
          "\<forall>j < i. feedbackID (store ! j) \<noteq> fid"
  shows "fst (getFeedback fid store) = Inr (feedback (store ! i), accuracyValue (store ! i))"
proof -
  have "find (\<lambda>f. feedbackID f = fid) store = Some (store ! i)"
    using assms by (auto simp: find_Some_iff)
  then show ?thesis by (simp add: getFeedback_def)
qed

lemma find_app:
  "find P (xs @ ys) = (case find P xs of None \<Rightarrow> find P ys | Some x \<Rightarrow> Some x)"
  by (induction xs) simp_all

lemma getFeedback_append_found:
  assumes "fst (getFeedback fid store) = Inr r"
  shows "fst (getFeedback fid (store @ later)) = Inr r"
  using assms by (simp add: getFeedback_def find_app split: option.splits)

text \<open>
  C8. For every identifier, \<open>getFeedback\<close> fails if and only if no stored record has
  that \<open>feedbackID\<close>, and the failure is the not-found error; when a record matches, the
  result is the feedback text and the accuracy of the first matching record; the store is
  left as it was.
\<close>

theorem C8_getFeedback_found_iff_stored:
  "((\<exists>err. fst (getFeedback fid store) = Inl err) \<longleftrightarrow> (\<forall>e \<in> set store. feedbackID e \<noteq> fid)) \<and>
   ((\<forall>e \<in> set store. feedbackID e \<noteq> fid) \<longrightarrow> fst (getFeedback fid store) = Inl (NotFound fid)) \<and>
   (\<forall>i < length store.
      feedbackID (store ! i) = fid \<and> (\<forall>j < i. feedbackID (store ! j) \<noteq> fid) \<longrightarrow>
      fst (getFeedback fid store) = Inr (feedback (store ! i), accuracyValue (store ! i))) \<and>
   snd (getFeedback fid store) = store"
  using getFeedback_NotFound_iff [of fid store] getFeedback_NotFound [of store fid]
    getFeedback_first [of _ store fid] getFeedback_store [of fid store]
  by blast


lemma analyze_cases:
  "analyze nts ex r p st =
     (case ex (feedbackPromptOf nts r p) (snd st) of
        (None, l1) \<Rightarrow> (Inl LLMFailure, (fst st, l1))
      | (Some fb, l1) \<Rightarrow>
         (case ex (createCheckExistingLandmarkPrompt fb) l1 of
            (None, l2) \<Rightarrow> (Inl LLMFailure, (fst st @ [storedEntry r p fb], l2))
          | (Some el, l2) \<Rightarrow>
             (case validateExistingLandmarks el of
                Inl e \<Rightarrow> (Inl e, (fst st @ [storedEntry r p fb], l2))
              | Inr u \<Rightarrow>
                 (case ex (createCheckMoodPrompt fb) l2 of
                    (None, l3) \<Rightarrow> (Inl LLMFailure, (fst st @ [storedEntry r p fb], l3))
                  | (Some m, l3) \<Rightarrow>
                      (Inr (feedbackIDOf r p), (fst st @ [storedEntry r p fb], l3))))))"
  by (simp add: analyze_def Let_def storedEntry_def feedbackPromptOf_def feedbackIDOf_def
      split: prod.splits option.splits sum.splits)

lemma analyze_returns_id:
  "analyze nts ex r p st = (Inr fid, st') \<Longrightarrow> fid = feedbackIDOf r p"
  by (auto simp: analyze_cases split: prod.splits option.splits sum.splits)

lemma analyze_store_after_primary:
  "ex (feedbackPromptOf nts r p) (snd st) = (Some fb, l1) \<Longrightarrow>
   fst (snd (analyze nts ex r p st)) = fst st @ [storedEntry r p fb]"
  by (simp add: analyze_cases split: prod.splits option.splits sum.splits)

lemma analyze_store_primary_fails:
  "ex (feedbackPromptOf nts r p) (snd st) = (None, l1) \<Longrightarrow>
   analyze nts ex r p st = (Inl LLMFailure, (fst st, l1))"
  by (simp add: analyze_cases)

lemma validateLoop_unknown:
  "\<exists>t \<in> set ts. \<not> inPoseLandmark t \<Longrightarrow>
   \<exists>t \<in> set ts. \<not> inPoseLandmark t \<and> validateLoop ts = Inl (UnknownLandmark t)"
  by (induction ts) auto

lemma validateLoop_ok: "\<forall>t \<in> set ts. inPoseLandmark t \<Longrightarrow> validateLoop ts = Inr ()"
  by (induction ts) auto

lemma validateExistingLandmarks_tokens:
  "validateExistingLandmarks s = validateLoop (extractedTokens s)"
  by (simp add: validateExistingLandmarks_def extractedTokens_def)

lemma getFeedback_snoc_same:
  "feedbackID e = fid \<Longrightarrow> \<exists>r. fst (getFeedback fid (store @ [e])) = Inr r"
  by (simp add: getFeedback_def find_app split: option.splits)

lemma getFeedback_snoc_new:
  assumes "\<forall>x \<in> set store. feedbackID x \<noteq> fid" "feedbackID e = fid"
  shows "fst (getFeedback fid (store @ [e])) = Inr (feedback e, accuracyValue e)"
proof -
  have "find (\<lambda>f. feedbackID f = fid) store = None"
    using assms(1) by (simp add: find_None_iff)
  then show ?thesis
    using assms(2) by (simp add: getFeedback_def find_app)
qed

lemma storedEntry_sel:
  "feedbackID (storedEntry r p fb) = feedbackIDOf r p"
  "feedback (storedEntry r p fb) = fb"
  "accuracyValue (storedEntry r p fb) = calculateAccuracy (computeAngleDifference r p)"
  by (simp_all add: storedEntry_def feedbackIDOf_def)

text \<open>
  C2. When the first call of the service has answered and the vocabulary check finds a
  token outside the vocabulary in the second answer, \<open>analyze\<close> fails with the
  unknown-landmark error for such a token, and the record built from the first answer is
  already appended: \<open>getFeedback\<close> on its identifier succeeds on the resulting store, and
  returns this record's feedback and accuracy when no earlier record has that identifier.
\<close>

theorem C2_unknown_landmark_after_store:
  assumes primary: "executeLLM (feedbackPromptOf nts reference practice) (snd st) = (Some aiFeedback, l1)"
      and second: "executeLLM (createCheckExistingLandmarkPrompt aiFeedback) l1 = (Some existingLandmarks, l2)"
      and tok: "tok \<in> set (extractedTokens existingLandmarks)" "\<not> inPoseLandmark tok"
  shows "\<exists>t. \<not> inPoseLandmark t \<and>
           analyze nts executeLLM reference practice st =
             (Inl (UnknownLandmark t), (fst st @ [storedEntry reference practice aiFeedback], l2)) \<and>
           (\<exists>r. fst (getFeedback (feedbackIDOf reference practice)
                        (fst st @ [storedEntry reference practice aiFeedback])) = Inr r) \<and>
           ((\<forall>e \<in> set (fst st). feedbackID e \<noteq> feedbackIDOf reference practice) \<longrightarrow>
              fst (getFeedback (feedbackIDOf reference practice)
                     (fst st @ [storedEntry reference practice aiFeedback])) =
                Inr (aiFeedback, calculateAccuracy (computeAngleDifference reference practice)))"
proof -
  obtain t where t: "\<not> inPoseLandmark t"
      "validateExistingLandmarks existingLandmarks = Inl (UnknownLandmark t)"
    using validateLoop_unknown [of "extractedTokens existingLandmarks"] tok
    by (auto simp: validateExistingLandmarks_tokens)
  have run: "analyze nts executeLLM reference practice st =
             (Inl (UnknownLandmark t), (fst st @ [storedEntry reference practice aiFeedback], l2))"
    by (simp add: analyze_cases primary second t)
  have found: "\<exists>r. fst (getFeedback (feedbackIDOf reference practice)
                        (fst st @ [storedEntry reference practice aiFeedback])) = Inr r"
    by (rule getFeedback_snoc_same) (simp add: storedEntry_sel)
  have fresh: "(\<forall>e \<in> set (fst st). feedbackID e \<noteq> feedbackIDOf reference practice) \<longrightarrow>
              fst (getFeedback (feedbackIDOf reference practice)
                     (fst st @ [storedEntry reference practice aiFeedback])) =
                Inr (aiFeedback, calculateAccuracy (computeAngleDifference reference practice))"
    using getFeedback_snoc_new [of "fst st" "feedbackIDOf reference practice"
        "storedEntry reference practice aiFeedback"]
    by (simp add: storedEntry_sel)
  show ?thesis using t(1) run found fresh by blast
qed


lemma natToString_digit: "n < 10 \<Longrightarrow> natToString n = [digitChar n]"
  by (simp add: natToString.simps)

lemma PoseLandmark_keys:
  "map fst PoseLandmark_entries =
     [''0'', ''1'', ''2'', ''3'', ''4'', ''5'', ''LEFT_SHOULDER'', ''RIGHT_SHOULDER'',
      ''LEFT_ELBOW'', ''RIGHT_ELBOW'', ''LEFT_WRIST'', ''RIGHT_WRIST'']"
  by (simp add: PoseLandmark_entries_def allLandmarks_def natToString_digit digitChar_def)

lemma inPoseLandmark_other_keys: "inPoseLandmark ''0''" "inPoseLandmark ''toString''"
  by (simp_all add: inPoseLandmark_def PoseLandmark_keys Object_prototype_keys_def)

lemma inPoseLandmark_empty: "\<not> inPoseLandmark []"
  by (simp add: inPoseLandmark_def PoseLandmark_keys Object_prototype_keys_def)

lemma stripBrackets_whitespace:
  assumes "\<forall>c \<in> set s. isWhiteSpace c"
  shows "stripBrackets s = s"
proof (cases s)
  case Nil
  then show ?thesis by (simp add: stripBrackets_def)
next
  case (Cons x xs)
  then have "s \<noteq> []" by simp
  then have "hd s \<in> set s" "last s \<in> set s"
    by simp_all
  then have "isWhiteSpace (hd s)" "isWhiteSpace (last s)"
    using assms by blast+
  then have "hd s \<noteq> CHR ''[''" "last s \<noteq> CHR '']''"
    by (auto simp: isWhiteSpace_def)
  then show ?thesis
    by (simp add: stripBrackets_def del: last.simps)
qed

lemma splitOn_absent: "c \<notin> set s \<Longrightarrow> splitOn c s = [s]"
  by (induction s) auto

lemma trim_whitespace:
  assumes "\<forall>c \<in> set s. isWhiteSpace c"
  shows "trim s = []"
proof -
  have a: "dropWhile isWhiteSpace s = []"
    using assms by simp
  show ?thesis
    unfolding trim_def a by simp
qed

lemma comma_not_whitespace: "\<not> isWhiteSpace (CHR '','')"
  by (simp add: isWhiteSpace_def)

lemma extractedTokens_whitespace:
  assumes "\<forall>c \<in> set s. isWhiteSpace c"
  shows "extractedTokens s = [[]]"
proof -
  have "CHR '','' \<notin> set s"
    using assms comma_not_whitespace by metis
  then have "splitOn (CHR '','') s = [s]"
    by (rule splitOn_absent)
  then show ?thesis
    by (simp add: extractedTokens_def stripBrackets_whitespace [OF assms]
        trim_whitespace [OF assms])
qed

lemma extractedTokens_brackets: "extractedTokens ''[]'' = [[]]"
  by (simp add: extractedTokens_def stripBrackets_def trim_def)

lemma validate_no_joints:
  assumes "s = ''[]'' \<or> (\<forall>c \<in> set s. isWhiteSpace c)"
  shows "validateExistingLandmarks s = Inl (UnknownLandmark [])"
proof -
  have "extractedTokens s = [[]]"
  proof (cases "s = ''[]''")
    case True
    then show ?thesis by (simp only: extractedTokens_brackets)
  next
    case False
    with assms have "\<forall>c \<in> set s. isWhiteSpace c" by simp
    then show ?thesis by (rule extractedTokens_whitespace)
  qed
  then show ?thesis
    by (simp add: validateExistingLandmarks_tokens inPoseLandmark_empty)
qed

text \<open>
  C9. If the answer to the vocabulary-extraction request is \<open>[]\<close>, or is empty or made
  of white space only, the vocabulary check fails with the unknown-landmark error for the
  empty token, and so does \<open>analyze\<close> once its first call has answered.
\<close>

theorem C9_empty_extraction_fails:
  assumes "s = ''[]'' \<or> (\<forall>c \<in> set s. isWhiteSpace c)"
  shows "validateExistingLandmarks s = Inl (UnknownLandmark []) \<and>
         (executeLLM (feedbackPromptOf nts reference practice) (snd st) = (Some aiFeedback, l1) \<and>
          executeLLM (createCheckExistingLandmarkPrompt aiFeedback) l1 = (Some s, l2) \<longrightarrow>
          fst (analyze nts executeLLM reference practice st) = Inl (UnknownLandmark []))"
  using validate_no_joints [OF assms] by (simp add: analyze_cases)

text \<open>
  C10. An identifier returned by \<open>analyze\<close> is \<open>fb-\<close>, the reference frame's identifier,
  \<open>-\<close> and the practice frame's identifier. When \<open>analyze\<close> runs twice on frames with the
  same pair of identifiers and the first call of the service answers both times, both
  records are appended, in order, under that one identifier; \<open>getFeedback\<close> on it answers
  after the second run what it answered after the first, which is the first run's feedback
  and accuracy when no earlier record had the identifier.
\<close>

theorem C10_same_identifier_first_record_wins:
  assumes ids: "frame_id ref2 = frame_id ref1" "frame_id prac2 = frame_id prac1"
      and first: "executeLLM (feedbackPromptOf nts ref1 prac1) (snd st0) = (Some fb1, l1)"
      and st1: "st1 = snd (analyze nts executeLLM ref1 prac1 st0)"
      and second: "executeLLM (feedbackPromptOf nts ref2 prac2) (snd st1) = (Some fb2, l2)"
      and st2: "st2 = snd (analyze nts executeLLM ref2 prac2 st1)"
  shows "(\<forall>fid st'. analyze nts executeLLM ref1 prac1 st0 = (Inr fid, st') \<longrightarrow>
            fid = ''fb-'' @ frame_id ref1 @ ''-'' @ frame_id prac1) \<and>
         fst st2 = fst st0 @ [storedEntry ref1 prac1 fb1, storedEntry ref2 prac2 fb2] \<and>
         feedbackID (storedEntry ref1 prac1 fb1) = ''fb-'' @ frame_id ref1 @ ''-'' @ frame_id prac1 \<and>
         feedbackID (storedEntry ref2 prac2 fb2) = ''fb-'' @ frame_id ref1 @ ''-'' @ frame_id prac1 \<and>
         fst (getFeedback (''fb-'' @ frame_id ref1 @ ''-'' @ frame_id prac1) (fst st2)) =
           fst (getFeedback (''fb-'' @ frame_id ref1 @ ''-'' @ frame_id prac1) (fst st1)) \<and>
         ((\<forall>e \<in> set (fst st0). feedbackID e \<noteq> ''fb-'' @ frame_id ref1 @ ''-'' @ frame_id prac1) \<longrightarrow>
            fst (getFeedback (''fb-'' @ frame_id ref1 @ ''-'' @ frame_id prac1) (fst st2)) =
              Inr (fb1, calculateAccuracy (computeAngleDifference ref1 prac1)))"
proof -
  let ?fid = "''fb-'' @ frame_id ref1 @ ''-'' @ frame_id prac1"
  let ?e1 = "storedEntry ref1 prac1 fb1"
  let ?e2 = "storedEntry ref2 prac2 fb2"
  have id1: "feedbackID ?e1 = ?fid"
    by (simp add: storedEntry_def)
  have id2: "feedbackID ?e2 = ?fid"
    by (simp add: storedEntry_def ids)
  have ret: "\<forall>fid st'. analyze nts executeLLM ref1 prac1 st0 = (Inr fid, st') \<longrightarrow> fid = ?fid"
    using analyze_returns_id [of nts executeLLM ref1 prac1 st0]
    by (simp add: feedbackIDOf_def)
  have s1: "fst st1 = fst st0 @ [?e1]"
    using analyze_store_after_primary [of executeLLM nts ref1 prac1 st0 fb1 l1] first
    by (simp add: st1)
  have s2: "fst st2 = fst st1 @ [?e2]"
    using analyze_store_after_primary [of executeLLM nts ref2 prac2 st1 fb2 l2] second
    by (simp add: st2)
  have s02: "fst st2 = fst st0 @ [?e1, ?e2]"
    by (simp add: s1 s2)
  obtain r where r: "fst (getFeedback ?fid (fst st1)) = Inr r"
    using getFeedback_snoc_same [OF id1, of "fst st0"] by (auto simp: s1)
  have same: "fst (getFeedback ?fid (fst st2)) = fst (getFeedback ?fid (fst st1))"
    using getFeedback_append_found [OF r, of "[?e2]"] r by (simp add: s2)
  have fresh: "(\<forall>e \<in> set (fst st0). feedbackID e \<noteq> ?fid) \<longrightarrow>
            fst (getFeedback ?fid (fst st2)) =
              Inr (fb1, calculateAccuracy (computeAngleDifference ref1 prac1))"
    using getFeedback_snoc_new [of "fst st0" ?fid ?e1] id1 same
    by (simp add: s1 storedEntry_sel)
  show ?thesis using ret s02 id1 id2 same fresh by blast
qed

section \<open>Prompt builder: results\<close>

lemma join_append:
  "xs \<noteq> [] \<Longrightarrow> ys \<noteq> [] \<Longrightarrow> join sep (xs @ ys) = join sep xs @ sep @ join sep ys"
proof (induction sep xs rule: join.induct)
  case (1 sep)
  then show ?case by simp
next
  case (2 sep x)
  then show ?case by (cases ys) simp_all
next
  case (3 sep x y ys')
  then show ?case by simp
qed

lemma sublist_join_segment:
  assumes "ys \<noteq> []"
  shows "sublist (join sep ys) (join sep (xs @ ys @ zs))"
proof -
  have right: "sublist (join sep ys) (join sep (ys @ zs))"
  proof (cases "zs = []")
    case True
    then show ?thesis by simp
  next
    case False
    then show ?thesis using assms by (simp add: join_append)
  qed
  show ?thesis
  proof (cases "xs = []")
    case True
    then show ?thesis using right by simp
  next
    case False
    have "join sep (xs @ ys @ zs) = join sep xs @ sep @ join sep (ys @ zs)"
      using False assms by (simp add: join_append)
    moreover have "sublist (join sep ys) (join sep xs @ sep @ join sep (ys @ zs))"
      using right by (metis append_assoc sublist_order.order_trans sublist_append_leftI)
    ultimately show ?thesis by simp
  qed
qed

lemma sublist_join_member:
  assumes "x \<in> set xs"
  shows "sublist x (join sep xs)"
proof -
  obtain ps ss where "xs = ps @ [x] @ ss"
    using assms by (metis append_Cons append_Nil split_list)
  then show ?thesis
    using sublist_join_segment [of "[x]" sep ps ss] by simp
qed

lemma Object_entries_nth:
  "i < length ds \<Longrightarrow> Object_entries ds ! i = (natToString i, ds ! i)"
  by (simp add: Object_entries_def)

lemma angleLine_member:
  assumes "i < length ds"
  shows "''- '' @ natToString i @ '': difference = '' @ toFixed nts 2 (ds ! i)
           \<in> set (map (angleLine nts) (Object_entries ds))"
proof -
  have len: "i < length (map (angleLine nts) (Object_entries ds))"
    using assms by (simp add: Object_entries_def)
  have "map (angleLine nts) (Object_entries ds) ! i =
          ''- '' @ natToString i @ '': difference = '' @ toFixed nts 2 (ds ! i)"
    using assms by (simp add: Object_entries_def angleLine_def)
  then show ?thesis
    using len nth_mem by metis
qed

lemma limbConnectionsString_text:
  "limbConnectionsString =
     ''LEFT_SHOULDER to LEFT_ELBOW, LEFT_ELBOW to LEFT_WRIST, RIGHT_SHOULDER to RIGHT_ELBOW, RIGHT_ELBOW to RIGHT_WRIST''"
  by (simp add: limbConnectionsString_def LIMB_CONNECTIONS_def)

lemma prompt_lines:
  "createFeedbackPrompt nts ds acc r p =
     join newline
       ((promptHeader @ [''Accuracy Score: '' @ toFixed nts 1 acc @ ''%'']) @
        [''Angle Differences:'', angleFeedback nts ds,
         ''LimbConnections associated with each angle for reference:'',
         limbConnectionsString] @
        ([[], ''Reference Landmarks Coordinates (PoseLandmark enum index order):'',
          JSON_stringify nts (frame_landmarks r),
          ''Practice Landmarks Coordinates (PoseLandmark enum index order):'',
          JSON_stringify nts (frame_landmarks p),
          ''PoseLandmark enum for reference:'', poseEnumString] @ promptInstructions))"
  by (simp add: createFeedbackPrompt_def Let_def)

lemma prompt_data_section:
  "sublist
     (''Angle Differences:'' @ newline @ angleFeedback nts ds @ newline @
      ''LimbConnections associated with each angle for reference:'' @ newline @
      limbConnectionsString)
     (createFeedbackPrompt nts ds acc r p)"
proof -
  have "join newline [''Angle Differences:'', angleFeedback nts ds,
         ''LimbConnections associated with each angle for reference:'',
         limbConnectionsString] =
        ''Angle Differences:'' @ newline @ angleFeedback nts ds @ newline @
      ''LimbConnections associated with each angle for reference:'' @ newline @
      limbConnectionsString"
    by simp
  then show ?thesis
    unfolding prompt_lines
    using sublist_join_segment [of "[''Angle Differences:'', angleFeedback nts ds,
         ''LimbConnections associated with each angle for reference:'',
         limbConnectionsString]" newline]
    by (metis list.distinct(1))
qed

lemma prompt_accuracy_line:
  "sublist (''Accuracy Score: '' @ toFixed nts 1 acc @ ''%'') (createFeedbackPrompt nts ds acc r p)"
  unfolding createFeedbackPrompt_def Let_def
  by (rule sublist_join_member) simp

lemma prompt_angleFeedback:
  "sublist (angleFeedback nts ds) (createFeedbackPrompt nts ds acc r p)"
  unfolding createFeedbackPrompt_def Let_def
  by (rule sublist_join_member) simp

lemma prompt_delta_line:
  assumes "i < length ds"
  shows "sublist (''- '' @ natToString i @ '': difference = '' @ toFixed nts 2 (ds ! i))
           (createFeedbackPrompt nts ds acc r p)"
proof -
  have "sublist (''- '' @ natToString i @ '': difference = '' @ toFixed nts 2 (ds ! i))
          (angleFeedback nts ds)"
    unfolding angleFeedback_def
    by (rule sublist_join_member) (rule angleLine_member [OF assms])
  then show ?thesis
    using prompt_angleFeedback sublist_order.order_trans by blast
qed


lemma digitChar_digit: "d < 10 \<Longrightarrow> digitChar d \<in> set ''0123456789''"
  unfolding digitChar_def by (rule nth_mem) simp

lemma natToString_digits: "set (natToString n) \<subseteq> set ''0123456789''"
proof (induction n rule: natToString.induct)
  case (1 n)
  show ?case
  proof (cases "n < 10")
    case True
    then show ?thesis
      using digitChar_digit [of n] by (simp add: natToString_digit)
  next
    case False
    have step: "natToString n = natToString (n div 10) @ [digitChar (n mod 10)]"
      using False by (subst natToString.simps) simp
    have "digitChar (n mod 10) \<in> set ''0123456789''"
      by (rule digitChar_digit) simp
    then show ?thesis
      using "1.IH" [OF False] by (simp add: step)
  qed
qed

lemma digitIndex_digitChar: "d < 10 \<Longrightarrow> digitIndex (digitChar d) = d"
proof -
  assume "d < 10"
  then have "d = 0 \<or> d = 1 \<or> d = 2 \<or> d = 3 \<or> d = 4 \<or> d = 5 \<or> d = 6 \<or> d = 7 \<or>
             d = 8 \<or> d = 9"
    by arith
  then show ?thesis
    by (elim disjE) (simp_all add: digitIndex_def digitChar_def)
qed

lemma digitsValue_snoc: "digitsValue (s @ [c]) = 10 * digitsValue s + digitIndex c"
  by (simp add: digitsValue_def)

lemma digitsValue_natToString: "digitsValue (natToString n) = n"
proof (induction n rule: natToString.induct)
  case (1 n)
  show ?case
  proof (cases "n < 10")
    case True
    then show ?thesis
      by (simp add: natToString_digit digitsValue_def digitIndex_digitChar)
  next
    case False
    have step: "natToString n = natToString (n div 10) @ [digitChar (n mod 10)]"
      using False by (subst natToString.simps) simp
    show ?thesis
      using "1.IH" [OF False]
      by (simp add: step digitsValue_snoc digitIndex_digitChar)
  qed
qed

lemma digitsValue_zeros: "digitsValue (replicate k (CHR ''0'') @ s) = digitsValue s"
proof (induction k)
  case 0
  then show ?case by simp
next
  case (Suc k)
  have "foldl (\<lambda>v c. 10 * v + digitIndex c) 0 (CHR ''0'' # replicate k (CHR ''0'') @ s) =
        foldl (\<lambda>v c. 10 * v + digitIndex c) 0 (replicate k (CHR ''0'') @ s)"
    by (simp add: digitIndex_def)
  then show ?case
    using Suc by (simp add: digitsValue_def)
qed

lemma toFixed_NaN: "toFixed nts f NaN = ''NaN''"
  by (simp add: toFixed_def)

lemma toFixed_large:
  "10 ^ 21 \<le> \<bar>x\<bar> \<Longrightarrow>
   toFixed nts f (Fin x) = (if x < 0 then ''-'' else []) @ nts \<bar>x\<bar>"
  by (simp add: toFixed_def Let_def)

lemma toFixed_format:
  assumes small: "\<bar>x\<bar> < 10 ^ 21" and f: "0 < f"
  shows "\<exists>a b. toFixed nts f (Fin x) = (if x < 0 then ''-'' else []) @ a @ ''.'' @ b \<and>
               a \<noteq> [] \<and> length b = f \<and> set (a @ b) \<subseteq> set ''0123456789'' \<and>
               digitsValue (a @ b) = nat \<lfloor>\<bar>x\<bar> * 10 ^ f + 1 / 2\<rfloor>"
proof -
  define n where "n = nat \<lfloor>\<bar>x\<bar> * 10 ^ f + 1 / 2\<rfloor>"
  define m where "m = natToString n"
  define m' where "m' = replicate (f + 1 - length m) (CHR ''0'') @ m"
  define k where "k = length m'"
  define a where "a = take (k - f) m'"
  define b where "b = drop (k - f) m'"
  have eq: "toFixed nts f (Fin x) = (if x < 0 then ''-'' else []) @ a @ ''.'' @ b"
    using small f by (simp add: toFixed_def Let_def n_def m_def m'_def k_def a_def b_def)
  have k: "f + 1 \<le> k"
    by (simp add: k_def m'_def)
  have a: "a \<noteq> []"
    using k by (auto simp: a_def k_def)
  have b: "length b = f"
    using k by (simp add: b_def k_def)
  have ab: "a @ b = m'"
    by (simp add: a_def b_def)
  have "set m' \<subseteq> insert (CHR ''0'') (set m)"
    by (auto simp: m'_def)
  also have "\<dots> \<subseteq> set ''0123456789''"
    using natToString_digits [of n] by (simp add: m_def)
  finally have digits: "set (a @ b) \<subseteq> set ''0123456789''"
    by (simp only: ab)
  have val: "digitsValue (a @ b) = n"
    by (simp only: ab m'_def digitsValue_zeros m_def digitsValue_natToString)
  show ?thesis
    using eq a b digits val unfolding n_def by blast
qed

lemma sublist_last_two_of_four:
  "sublist (c @ n @ d) (a @ n @ b @ n @ c @ n @ d)"
proof -
  have "a @ n @ b @ n @ c @ n @ d = (a @ n @ b @ n) @ (c @ n @ d)"
    by simp
  then show ?thesis
    by (simp only: sublist_append_leftI)
qed

lemma prompt_connection_names:
  "sublist
     (''LimbConnections associated with each angle for reference:'' @ newline @
      limbConnectionsString)
     (createFeedbackPrompt nts ds acc r p)"
  by (rule sublist_order.order_trans [OF sublist_last_two_of_four prompt_data_section])

lemma angleFeedback_lines:
  "angleFeedback nts ds =
     join newline
       (map (\<lambda>i. ''- '' @ natToString i @ '': difference = '' @ toFixed nts 2 (ds ! i))
          [0..<length ds])"
proof -
  have "map (angleLine nts) (Object_entries ds) =
        map (\<lambda>i. ''- '' @ natToString i @ '': difference = '' @ toFixed nts 2 (ds ! i))
          [0..<length ds]"
    by (rule nth_equalityI) (simp_all add: Object_entries_def angleLine_def)
  then show ?thesis
    by (simp only: angleFeedback_def)
qed

lemma join_three_groups:
  assumes "xs \<noteq> []" "zs \<noteq> []"
  shows "join sep (xs @ [a, b, c, d] @ zs) =
           join sep xs @ sep @ a @ sep @ b @ sep @ c @ sep @ d @ sep @ join sep zs"
proof -
  have "join sep (xs @ [a, b, c, d] @ zs) = join sep xs @ sep @ join sep ([a, b, c, d] @ zs)"
    using assms by (simp add: join_append)
  also have "join sep ([a, b, c, d] @ zs) = join sep [a, b, c, d] @ sep @ join sep zs"
    using assms by (simp only: join_append [of "[a, b, c, d]" zs sep] list.distinct
        not_False_eq_True)
  finally show ?thesis by simp
qed

lemma join_snoc: "xs \<noteq> [] \<Longrightarrow> join sep (xs @ [x]) = join sep xs @ sep @ x"
  by (simp add: join_append)

lemma promptHeader_nonempty: "promptHeader \<noteq> []"
  by (simp add: promptHeader_def)

lemma prompt_layout:
  "createFeedbackPrompt nts ds acc r p =
     join newline promptHeader @ newline @
     ''Accuracy Score: '' @ toFixed nts 1 acc @ ''%'' @ newline @
     ''Angle Differences:'' @ newline @
     join newline
       (map (\<lambda>i. ''- '' @ natToString i @ '': difference = '' @ toFixed nts 2 (ds ! i))
          [0..<length ds]) @ newline @
     ''LimbConnections associated with each angle for reference:'' @ newline @
     ''LEFT_SHOULDER to LEFT_ELBOW, LEFT_ELBOW to LEFT_WRIST, RIGHT_SHOULDER to RIGHT_ELBOW, RIGHT_ELBOW to RIGHT_WRIST'' @
     newline @
     join newline
       ([[], ''Reference Landmarks Coordinates (PoseLandmark enum index order):'',
         JSON_stringify nts (frame_landmarks r),
         ''Practice Landmarks Coordinates (PoseLandmark enum index order):'',
         JSON_stringify nts (frame_landmarks p),
         ''PoseLandmark enum for reference:'', poseEnumString] @ promptInstructions)"
proof -
  let ?xs = "promptHeader @ [''Accuracy Score: '' @ toFixed nts 1 acc @ ''%'']"
  let ?zs = "[[], ''Reference Landmarks Coordinates (PoseLandmark enum index order):'',
         JSON_stringify nts (frame_landmarks r),
         ''Practice Landmarks Coordinates (PoseLandmark enum index order):'',
         JSON_stringify nts (frame_landmarks p),
         ''PoseLandmark enum for reference:'', poseEnumString] @ promptInstructions"
  have xs: "?xs \<noteq> []" and zs: "?zs \<noteq> []"
    by simp_all
  have head: "join newline ?xs =
              join newline promptHeader @ newline @
              ''Accuracy Score: '' @ toFixed nts 1 acc @ ''%''"
    by (rule join_snoc [OF promptHeader_nonempty])
  show ?thesis
    unfolding prompt_lines join_three_groups [OF xs zs] head angleFeedback_lines
      limbConnectionsString_text
    by (simp only: append_assoc)
qed

lemma names_line:
  "''LEFT_SHOULDER to LEFT_ELBOW, LEFT_ELBOW to LEFT_WRIST, RIGHT_SHOULDER to RIGHT_ELBOW, RIGHT_ELBOW to RIGHT_WRIST'' =
     join '', '' (map (\<lambda>c. landmarkName (fst c) @ '' to '' @ landmarkName (snd c)) LIMB_CONNECTIONS)"
  using limbConnectionsString_text by (simp only: limbConnectionsString_def)


lemma notin_subset: "A \<subseteq> B \<Longrightarrow> c \<notin> B \<Longrightarrow> c \<notin> A"
  by blast

lemma digits_avoid:
  "CHR ''_'' \<notin> set ''0123456789''" "CHR 0x0A \<notin> set ''0123456789''"
  by simp_all

lemma natToString_avoids:
  "CHR ''_'' \<notin> set (natToString i)" "CHR 0x0A \<notin> set (natToString i)"
  by (rule notin_subset [OF natToString_digits], rule digits_avoid)+

lemma toFixed_avoids:
  assumes "v = NaN \<or> (\<exists>x. v = Fin x \<and> \<bar>x\<bar> < 10 ^ 21)" and "0 < f"
  shows "CHR ''_'' \<notin> set (toFixed nts f v) \<and> CHR 0x0A \<notin> set (toFixed nts f v)"
proof (cases v)
  case NaN
  then show ?thesis by (simp add: toFixed_NaN)
next
  case (Fin x)
  with assms have small: "\<bar>x\<bar> < 10 ^ 21" by simp
  obtain a b where eq: "toFixed nts f (Fin x) = (if x < 0 then ''-'' else []) @ a @ ''.'' @ b"
      and digits: "set (a @ b) \<subseteq> set ''0123456789''"
    using toFixed_format [OF small assms(2), of nts] by blast
  have u: "CHR ''_'' \<notin> set (a @ b)"
    by (rule notin_subset [OF digits digits_avoid(1)])
  have n: "CHR 0x0A \<notin> set (a @ b)"
    by (rule notin_subset [OF digits digits_avoid(2)])
  show ?thesis
    using u n by (simp add: Fin eq)
qed

lemma deltaLine_avoids:
  assumes "v = NaN \<or> (\<exists>x. v = Fin x \<and> \<bar>x\<bar> < 10 ^ 21)"
  shows "CHR ''_'' \<notin> set (''- '' @ natToString i @ '': difference = '' @ toFixed nts 2 v) \<and>
         CHR 0x0A \<notin> set (''- '' @ natToString i @ '': difference = '' @ toFixed nts 2 v)"
  using toFixed_avoids [OF assms, of 2 nts] natToString_avoids [of i]
  by simp

lemma landmarkName_underscore: "CHR ''_'' \<in> set (landmarkName l)"
  by (cases l) simp_all

lemma no_name_without_underscore:
  assumes "CHR ''_'' \<notin> set line"
  shows "\<not> sublist (landmarkName l) line"
proof
  assume "sublist (landmarkName l) line"
  then have "set (landmarkName l) \<subseteq> set line"
    by (rule set_mono_sublist)
  then show False
    using landmarkName_underscore [of l] assms by blast
qed

text \<open>
  C1, as amended. For every delta sequence, accuracy value and pair of frames, the request
  text is laid out as follows: the fixed header; the line \<open>Accuracy Score:\<close> with the
  accuracy printed by \<open>toFixed(1)\<close> and a percent sign; the line \<open>Angle Differences:\<close>;
  one line per position of the delta sequence, in order, each made of a dash, the decimal
  index of the position as its label, and the delta printed by \<open>toFixed(2)\<close>; the heading
  of the connection list; one line with the landmark names of the two endpoints of every
  connection, in connection order; and the rest of the text. A delta line whose delta is
  the sentinel or of magnitude below \<open>10^21\<close> contains no line break and no landmark name.
  \<open>toFixed\<close> prints \<open>NaN\<close> for the sentinel and, for a value of magnitude below \<open>10^21\<close>,
  an optional minus sign, at least one digit, a point and exactly as many digits as asked;
  the digits denote the magnitude scaled by the power of ten and rounded to the nearest
  integer.
\<close>

theorem C1_prompt_contents:
  "createFeedbackPrompt nts ds acc r p =
     join newline promptHeader @ newline @
     ''Accuracy Score: '' @ toFixed nts 1 acc @ ''%'' @ newline @
     ''Angle Differences:'' @ newline @
     join newline
       (map (\<lambda>i. ''- '' @ natToString i @ '': difference = '' @ toFixed nts 2 (ds ! i))
          [0..<length ds]) @ newline @
     ''LimbConnections associated with each angle for reference:'' @ newline @
     ''LEFT_SHOULDER to LEFT_ELBOW, LEFT_ELBOW to LEFT_WRIST, RIGHT_SHOULDER to RIGHT_ELBOW, RIGHT_ELBOW to RIGHT_WRIST'' @
     newline @
     join newline
       ([[], ''Reference Landmarks Coordinates (PoseLandmark enum index order):'',
         JSON_stringify nts (frame_landmarks r),
         ''Practice Landmarks Coordinates (PoseLandmark enum index order):'',
         JSON_stringify nts (frame_landmarks p),
         ''PoseLandmark enum for reference:'', poseEnumString] @ promptInstructions) \<and>
   ''LEFT_SHOULDER to LEFT_ELBOW, LEFT_ELBOW to LEFT_WRIST, RIGHT_SHOULDER to RIGHT_ELBOW, RIGHT_ELBOW to RIGHT_WRIST'' =
     join '', '' (map (\<lambda>c. landmarkName (fst c) @ '' to '' @ landmarkName (snd c))
                      LIMB_CONNECTIONS) \<and>
   (\<forall>i < length ds.
      (ds ! i = NaN \<or> (\<exists>x. ds ! i = Fin x \<and> \<bar>x\<bar> < 10 ^ 21)) \<longrightarrow>
      CHR 0x0A \<notin> set (''- '' @ natToString i @ '': difference = '' @ toFixed nts 2 (ds ! i)) \<and>
      (\<forall>l. \<not> sublist (landmarkName l) (''- '' @ natToString i @ '': difference = '' @ toFixed nts 2 (ds ! i)))) \<and>
   sublist (''Accuracy Score: '' @ toFixed nts 1 acc @ ''%'') (createFeedbackPrompt nts ds acc r p) \<and>
   (\<forall>i < length ds.
      sublist (''- '' @ natToString i @ '': difference = '' @ toFixed nts 2 (ds ! i))
        (createFeedbackPrompt nts ds acc r p)) \<and>
   sublist
     (''LimbConnections associated with each angle for reference:'' @ newline @
      ''LEFT_SHOULDER to LEFT_ELBOW, LEFT_ELBOW to LEFT_WRIST, RIGHT_SHOULDER to RIGHT_ELBOW, RIGHT_ELBOW to RIGHT_WRIST'')
     (createFeedbackPrompt nts ds acc r p) \<and>
   toFixed nts 1 NaN = ''NaN'' \<and> toFixed nts 2 NaN = ''NaN'' \<and>
   (\<forall>f x. \<bar>x\<bar> < 10 ^ 21 \<and> 0 < f \<longrightarrow>
      (\<exists>a b. toFixed nts f (Fin x) = (if x < 0 then ''-'' else []) @ a @ ''.'' @ b \<and>
             a \<noteq> [] \<and> length b = f \<and> set (a @ b) \<subseteq> set ''0123456789'' \<and>
             digitsValue (a @ b) = nat \<lfloor>\<bar>x\<bar> * 10 ^ f + 1 / 2\<rfloor>))"
proof (intro conjI allI impI)
  show "createFeedbackPrompt nts ds acc r p =
     join newline promptHeader @ newline @
     ''Accuracy Score: '' @ toFixed nts 1 acc @ ''%'' @ newline @
     ''Angle Differences:'' @ newline @
     join newline
       (map (\<lambda>i. ''- '' @ natToString i @ '': difference = '' @ toFixed nts 2 (ds ! i))
          [0..<length ds]) @ newline @
     ''LimbConnections associated with each angle for reference:'' @ newline @
     ''LEFT_SHOULDER to LEFT_ELBOW, LEFT_ELBOW to LEFT_WRIST, RIGHT_SHOULDER to RIGHT_ELBOW, RIGHT_ELBOW to RIGHT_WRIST'' @
     newline @
     join newline
       ([[], ''Reference Landmarks Coordinates (PoseLandmark enum index order):'',
         JSON_stringify nts (frame_landmarks r),
         ''Practice Landmarks Coordinates (PoseLandmark enum index order):'',
         JSON_stringify nts (frame_landmarks p),
         ''PoseLandmark enum for reference:'', poseEnumString] @ promptInstructions)"
    by (rule prompt_layout)
next
  show "''LEFT_SHOULDER to LEFT_ELBOW, LEFT_ELBOW to LEFT_WRIST, RIGHT_SHOULDER to RIGHT_ELBOW, RIGHT_ELBOW to RIGHT_WRIST'' =
     join '', '' (map (\<lambda>c. landmarkName (fst c) @ '' to '' @ landmarkName (snd c))
                      LIMB_CONNECTIONS)"
    by (rule names_line)
next
  fix i
  assume "i < length ds"
     and "ds ! i = NaN \<or> (\<exists>x. ds ! i = Fin x \<and> \<bar>x\<bar> < 10 ^ 21)"
  then show "CHR 0x0A \<notin> set (''- '' @ natToString i @ '': difference = '' @ toFixed nts 2 (ds ! i))"
    using deltaLine_avoids [of "ds ! i" i nts] by (simp only: simp_thms)
next
  fix i l
  assume "i < length ds"
     and "ds ! i = NaN \<or> (\<exists>x. ds ! i = Fin x \<and> \<bar>x\<bar> < 10 ^ 21)"
  then have "CHR ''_'' \<notin> set (''- '' @ natToString i @ '': difference = '' @ toFixed nts 2 (ds ! i))"
    using deltaLine_avoids [of "ds ! i" i nts] by (simp only: simp_thms)
  then show "\<not> sublist (landmarkName l) (''- '' @ natToString i @ '': difference = '' @ toFixed nts 2 (ds ! i))"
    by (rule no_name_without_underscore)
next
  show "sublist (''Accuracy Score: '' @ toFixed nts 1 acc @ ''%'')
          (createFeedbackPrompt nts ds acc r p)"
    by (rule prompt_accuracy_line)
next
  fix i
  assume "i < length ds"
  then show "sublist (''- '' @ natToString i @ '': difference = '' @ toFixed nts 2 (ds ! i))
               (createFeedbackPrompt nts ds acc r p)"
    by (rule prompt_delta_line)
next
  show "sublist
     (''LimbConnections associated with each angle for reference:'' @ newline @
      ''LEFT_SHOULDER to LEFT_ELBOW, LEFT_ELBOW to LEFT_WRIST, RIGHT_SHOULDER to RIGHT_ELBOW, RIGHT_ELBOW to RIGHT_WRIST'')
     (createFeedbackPrompt nts ds acc r p)"
    using prompt_connection_names [of nts ds acc r p]
    by (simp only: limbConnectionsString_text)
next
  show "toFixed nts 1 NaN = ''NaN''"
    by (rule toFixed_NaN)
next
  show "toFixed nts 2 NaN = ''NaN''"
    by (rule toFixed_NaN)
next
  fix f :: nat and x :: real
  assume "\<bar>x\<bar> < 10 ^ 21 \<and> 0 < f"
  then have "\<bar>x\<bar> < 10 ^ 21" "0 < f"
    by simp_all
  then show "\<exists>a b. toFixed nts f (Fin x) = (if x < 0 then ''-'' else []) @ a @ ''.'' @ b \<and>
             a \<noteq> [] \<and> length b = f \<and> set (a @ b) \<subseteq> set ''0123456789'' \<and>
             digitsValue (a @ b) = nat \<lfloor>\<bar>x\<bar> * 10 ^ f + 1 / 2\<rfloor>"
    by (rule toFixed_format)
qed

section \<open>The results on the test inputs\<close>

lemma perfect_accuracy:
  "calculateAccuracy (computeAngleDifference referencePose practicePose) = Fin 100"
proof -
  have "frame_angles practicePose = frame_angles referencePose"
    by (simp add: practicePose_def referencePose_def frameOf_def)
  then have "computeAngleDifference referencePose practicePose =
             map (\<lambda>a. js_sub a a) (frame_angles referencePose)"
    by (rule computeAngleDifference_same)
  then have "calculateAccuracy (computeAngleDifference referencePose practicePose) =
             (if \<forall>a \<in> set (frame_angles referencePose). a = NaN then Fin 0 else Fin 100)"
    by (simp only: calculateAccuracy_self)
  then show ?thesis
    by (simp add: referencePose_def frameOf_def refLandmarks_angles)
qed

lemma perfect_id: "feedbackIDOf referencePose practicePose = ''fb-reference-practice''"
  by (simp add: feedbackIDOf_def referencePose_def practicePose_def frameOf_def)

lemma tokens_knee: "extractedTokens ''[LEFT_ELBOW, LEFT_KNEE]'' = [''LEFT_ELBOW'', ''LEFT_KNEE'']"
  by (simp add: extractedTokens_def stripBrackets_def trim_def isWhiteSpace_def)

lemma tokens_elbow: "extractedTokens ''[LEFT_ELBOW]'' = [''LEFT_ELBOW'']"
  by (simp add: extractedTokens_def stripBrackets_def trim_def isWhiteSpace_def)

lemma inPoseLandmark_elbow: "inPoseLandmark ''LEFT_ELBOW''"
  by (simp add: inPoseLandmark_def PoseLandmark_keys)

lemma inPoseLandmark_knee: "\<not> inPoseLandmark ''LEFT_KNEE''"
  by (simp add: inPoseLandmark_def PoseLandmark_keys Object_prototype_keys_def)

lemma validate_knee:
  "validateExistingLandmarks ''[LEFT_ELBOW, LEFT_KNEE]'' = Inl (UnknownLandmark ''LEFT_KNEE'')"
  by (simp add: validateExistingLandmarks_tokens tokens_knee inPoseLandmark_elbow
      inPoseLandmark_knee)

lemma validate_elbow: "validateExistingLandmarks ''[LEFT_ELBOW]'' = Inr ()"
  by (simp add: validateExistingLandmarks_tokens tokens_elbow inPoseLandmark_elbow)

theorem C8_witness:
  "fst (getFeedback ''fb-reference-practice''
          [storedEntry referencePose practicePose ''first'',
           storedEntry referencePose practicePose ''second'']) = Inr (''first'', Fin 100) \<and>
   fst (getFeedback ''fb-other''
          [storedEntry referencePose practicePose ''first'',
           storedEntry referencePose practicePose ''second'']) = Inl (NotFound ''fb-other'')"
proof -
  let ?store = "[storedEntry referencePose practicePose ''first'',
                 storedEntry referencePose practicePose ''second'']"
  have found: "fst (getFeedback ''fb-reference-practice'' ?store) =
               Inr (feedback (?store ! 0), accuracyValue (?store ! 0))"
    using C8_getFeedback_found_iff_stored
      [of "''fb-reference-practice''" ?store, THEN conjunct2, THEN conjunct2, THEN conjunct1,
       rule_format, of 0]
    by (simp add: storedEntry_sel perfect_id)
  have missing: "fst (getFeedback ''fb-other'' ?store) = Inl (NotFound ''fb-other'')"
    using C8_getFeedback_found_iff_stored
      [of "''fb-other''" ?store, THEN conjunct2, THEN conjunct1]
    by (simp add: storedEntry_sel perfect_id)
  show ?thesis
    using found missing by (simp add: storedEntry_sel perfect_accuracy)
qed


theorem C2_witness:
  "analyze numberToString_stub scriptedLLM referencePose practicePose
     ([], [Some ''Raise your left knee.'', Some ''[LEFT_ELBOW, LEFT_KNEE]'']) =
     (Inl (UnknownLandmark ''LEFT_KNEE''),
      ([storedEntry referencePose practicePose ''Raise your left knee.''], [])) \<and>
   fst (getFeedback ''fb-reference-practice''
          [storedEntry referencePose practicePose ''Raise your left knee.'']) =
     Inr (''Raise your left knee.'', Fin 100)"
proof -
  let ?st = "([] :: FeedbackEntry list,
              [Some ''Raise your left knee.'', Some ''[LEFT_ELBOW, LEFT_KNEE]''])"
  have primary: "scriptedLLM (feedbackPromptOf numberToString_stub referencePose practicePose)
                   (snd ?st) =
                 (Some ''Raise your left knee.'', [Some ''[LEFT_ELBOW, LEFT_KNEE]''])"
    by (simp add: scriptedLLM_def)
  have second: "scriptedLLM (createCheckExistingLandmarkPrompt ''Raise your left knee.'')
                  [Some ''[LEFT_ELBOW, LEFT_KNEE]''] =
                (Some ''[LEFT_ELBOW, LEFT_KNEE]'', [])"
    by (simp add: scriptedLLM_def)
  have tok: "''LEFT_KNEE'' \<in> set (extractedTokens ''[LEFT_ELBOW, LEFT_KNEE]'')"
    by (simp add: tokens_knee)
  obtain t where t:
    "analyze numberToString_stub scriptedLLM referencePose practicePose ?st =
       (Inl (UnknownLandmark t),
        (fst ?st @ [storedEntry referencePose practicePose ''Raise your left knee.''], []))"
    "(\<forall>e \<in> set (fst ?st). feedbackID e \<noteq> feedbackIDOf referencePose practicePose) \<longrightarrow>
       fst (getFeedback (feedbackIDOf referencePose practicePose)
              (fst ?st @ [storedEntry referencePose practicePose ''Raise your left knee.''])) =
         Inr (''Raise your left knee.'',
              calculateAccuracy (computeAngleDifference referencePose practicePose))"
    using C2_unknown_landmark_after_store [OF primary second tok inPoseLandmark_knee]
    by (elim exE conjE)
  have run: "analyze numberToString_stub scriptedLLM referencePose practicePose ?st =
       (Inl (UnknownLandmark ''LEFT_KNEE''),
        ([storedEntry referencePose practicePose ''Raise your left knee.''], []))"
    by (simp add: analyze_cases scriptedLLM_def validate_knee)
  show ?thesis
    using run t(2) by (simp add: perfect_id perfect_accuracy)
qed

theorem C9_witness:
  "validateExistingLandmarks ''[]'' = Inl (UnknownLandmark []) \<and>
   validateExistingLandmarks [] = Inl (UnknownLandmark []) \<and>
   validateExistingLandmarks ''  '' = Inl (UnknownLandmark []) \<and>
   fst (analyze numberToString_stub scriptedLLM referencePose practicePose
          ([], [Some ''Well done, keep going!'', Some ''[]''])) = Inl (UnknownLandmark [])"
proof -
  have ws: "''[]'' = ''[]'' \<or> (\<forall>c \<in> set ''[]''. isWhiteSpace c)"
    by simp
  have em: "[] = ''[]'' \<or> (\<forall>c \<in> set []. isWhiteSpace c)"
    by simp
  have sp: "''  '' = ''[]'' \<or> (\<forall>c \<in> set ''  ''. isWhiteSpace c)"
    by (simp add: isWhiteSpace_def)
  have run: "fst (analyze numberToString_stub scriptedLLM referencePose practicePose
          ([], [Some ''Well done, keep going!'', Some ''[]''])) = Inl (UnknownLandmark [])"
    using C9_empty_extraction_fails [OF ws, of scriptedLLM numberToString_stub referencePose
        practicePose "([], [Some ''Well done, keep going!'', Some ''[]''])"
        "''Well done, keep going!''" "[Some ''[]'']" "[]"]
    by (simp add: scriptedLLM_def)
  show ?thesis
    using C9_empty_extraction_fails [OF ws, THEN conjunct1]
      C9_empty_extraction_fails [OF em, THEN conjunct1]
      C9_empty_extraction_fails [OF sp, THEN conjunct1] run
    by simp
qed


lemma scripted_run_ok:
  "analyze nts scriptedLLM r p (store, Some fb # Some ''[LEFT_ELBOW]'' # Some m # rest) =
     (Inr (feedbackIDOf r p), (store @ [storedEntry r p fb], rest))"
  by (simp add: analyze_cases scriptedLLM_def validate_elbow)

theorem C10_witness:
  "analyze numberToString_stub scriptedLLM referencePose practicePose
     ([], [Some ''first'', Some ''[LEFT_ELBOW]'', Some ''TRUE'',
           Some ''second'', Some ''[LEFT_ELBOW]'', Some ''TRUE'']) =
     (Inr ''fb-reference-practice'',
      ([storedEntry referencePose practicePose ''first''],
       [Some ''second'', Some ''[LEFT_ELBOW]'', Some ''TRUE''])) \<and>
   analyze numberToString_stub scriptedLLM referencePose practicePose
     ([storedEntry referencePose practicePose ''first''],
      [Some ''second'', Some ''[LEFT_ELBOW]'', Some ''TRUE'']) =
     (Inr ''fb-reference-practice'',
      ([storedEntry referencePose practicePose ''first'',
        storedEntry referencePose practicePose ''second''], [])) \<and>
   fst (getFeedback ''fb-reference-practice''
          [storedEntry referencePose practicePose ''first'',
           storedEntry referencePose practicePose ''second'']) = Inr (''first'', Fin 100)"
proof -
  let ?s1 = "[Some ''second'', Some ''[LEFT_ELBOW]'', Some ''TRUE'']"
  let ?s0 = "Some ''first'' # Some ''[LEFT_ELBOW]'' # Some ''TRUE'' # ?s1"
  let ?st0 = "([] :: FeedbackEntry list, ?s0)"
  let ?st1 = "([storedEntry referencePose practicePose ''first''], ?s1)"
  let ?st2 = "([storedEntry referencePose practicePose ''first'',
                storedEntry referencePose practicePose ''second''], [] :: string option list)"
  have run1: "analyze numberToString_stub scriptedLLM referencePose practicePose ?st0 =
              (Inr ''fb-reference-practice'', ?st1)"
    using scripted_run_ok [of numberToString_stub referencePose practicePose "[]" "''first''"
        "''TRUE''" ?s1]
    by (simp add: perfect_id)
  have run2: "analyze numberToString_stub scriptedLLM referencePose practicePose ?st1 =
              (Inr ''fb-reference-practice'', ?st2)"
    using scripted_run_ok [of numberToString_stub referencePose practicePose
        "[storedEntry referencePose practicePose ''first'']" "''second''" "''TRUE''" "[]"]
    by (simp add: perfect_id)
  have first: "scriptedLLM (feedbackPromptOf numberToString_stub referencePose practicePose)
                 (snd ?st0) = (Some ''first'', [Some ''[LEFT_ELBOW]'', Some ''TRUE''] @ ?s1)"
    by (simp add: scriptedLLM_def)
  have st1: "?st1 = snd (analyze numberToString_stub scriptedLLM referencePose practicePose ?st0)"
    by (simp only: run1 snd_conv)
  have second: "scriptedLLM (feedbackPromptOf numberToString_stub referencePose practicePose)
                  (snd ?st1) = (Some ''second'', [Some ''[LEFT_ELBOW]'', Some ''TRUE''])"
    by (simp add: scriptedLLM_def)
  have st2: "?st2 = snd (analyze numberToString_stub scriptedLLM referencePose practicePose ?st1)"
    by (simp only: run2 snd_conv)
  have fresh: "\<forall>e \<in> set (fst ?st0).
                 feedbackID e \<noteq> ''fb-'' @ frame_id referencePose @ ''-'' @ frame_id practicePose"
    by simp
  have "fst (getFeedback (''fb-'' @ frame_id referencePose @ ''-'' @ frame_id practicePose)
               (fst ?st2)) =
          Inr (''first'', calculateAccuracy (computeAngleDifference referencePose practicePose))"
    using C10_same_identifier_first_record_wins [OF refl refl first st1 second st2] fresh
    by (elim conjE) (erule mp)
  then have "fst (getFeedback ''fb-reference-practice'' (fst ?st2)) = Inr (''first'', Fin 100)"
    using perfect_id by (simp add: feedbackIDOf_def perfect_accuracy)
  then show ?thesis
    using run1 run2 by simp
qed


lemma perfect_deltas:
  "computeAngleDifference referencePose practicePose = [Fin 0, Fin 0, Fin 0, Fin 0]"
proof -
  have "frame_angles practicePose = frame_angles referencePose"
    by (simp add: practicePose_def referencePose_def frameOf_def)
  then have "computeAngleDifference referencePose practicePose =
             map (\<lambda>a. js_sub a a) (frame_angles referencePose)"
    by (rule computeAngleDifference_same)
  then show ?thesis
    by (simp add: referencePose_def frameOf_def refLandmarks_angles js_sub_self)
qed

lemma toFixed_zero: "toFixed nts 2 (Fin 0) = ''0.00''"
  by (simp add: toFixed_def natToString_digit digitChar_def)

lemma toFixed_45: "toFixed nts 2 (Fin 45) = ''45.00''"
  by (simp add: toFixed_def Let_def natToString.simps [of 4500] natToString.simps [of 450]
      natToString.simps [of 45] natToString_digit digitChar_def)

lemma toFixed_775: "toFixed nts 1 (Fin 77.5) = ''77.5''"
  by (simp add: toFixed_def Let_def natToString.simps [of 775] natToString.simps [of 77]
      natToString_digit digitChar_def)

lemma perfect_angleFeedback:
  "angleFeedback nts [Fin 0, Fin 0, Fin 0, Fin 0] =
     ''- 0: difference = 0.00'' @ newline @ ''- 1: difference = 0.00'' @ newline @
     ''- 2: difference = 0.00'' @ newline @ ''- 3: difference = 0.00''"
  by (simp add: angleFeedback_def Object_entries_def angleLine_def toFixed_zero
      natToString_digit digitChar_def upt_conv_Cons)

lemma sublist_first_three_of_four:
  "sublist (a @ n @ b @ n @ c) (a @ n @ b @ n @ c @ n @ d)"
proof -
  have "a @ n @ b @ n @ c @ n @ d = (a @ n @ b @ n @ c) @ (n @ d)"
    by simp
  then show ?thesis
    by (simp only: sublist_append_rightI)
qed

lemma prompt_delta_section:
  "sublist
     (''Angle Differences:'' @ newline @ angleFeedback nts ds @ newline @
      ''LimbConnections associated with each angle for reference:'')
     (createFeedbackPrompt nts ds acc r p)"
  by (rule sublist_order.order_trans [OF sublist_first_three_of_four prompt_data_section])

text \<open>
  C1 as stated fails on the labels: for the perfect-pose frames the delta lines of the
  request text are labelled \<open>0\<close> to \<open>3\<close>, and the line of the first connection names
  neither of its endpoints.
\<close>

theorem C1_counterexample:
  "computeAngleDifference referencePose practicePose = [Fin 0, Fin 0, Fin 0, Fin 0] \<and>
   angleFeedback numberToString_stub (computeAngleDifference referencePose practicePose) =
     ''- 0: difference = 0.00'' @ newline @ ''- 1: difference = 0.00'' @ newline @
     ''- 2: difference = 0.00'' @ newline @ ''- 3: difference = 0.00'' \<and>
   sublist
     (''Angle Differences:'' @ newline @
      angleFeedback numberToString_stub (computeAngleDifference referencePose practicePose) @
      newline @ ''LimbConnections associated with each angle for reference:'')
     (feedbackPromptOf numberToString_stub referencePose practicePose) \<and>
   \<not> sublist (landmarkName LEFT_SHOULDER) ''- 0: difference = 0.00'' \<and>
   \<not> sublist (landmarkName LEFT_ELBOW) ''- 0: difference = 0.00''"
proof -
  have a: "\<not> sublist (landmarkName LEFT_SHOULDER) ''- 0: difference = 0.00''"
    by (simp add: sublist_Cons_right)
  have b: "\<not> sublist (landmarkName LEFT_ELBOW) ''- 0: difference = 0.00''"
    by (simp add: sublist_Cons_right)
  have c: "sublist
     (''Angle Differences:'' @ newline @
      angleFeedback numberToString_stub (computeAngleDifference referencePose practicePose) @
      newline @ ''LimbConnections associated with each angle for reference:'')
     (feedbackPromptOf numberToString_stub referencePose practicePose)"
    unfolding feedbackPromptOf_def by (rule prompt_delta_section)
  have d: "angleFeedback numberToString_stub (computeAngleDifference referencePose practicePose) =
     ''- 0: difference = 0.00'' @ newline @ ''- 1: difference = 0.00'' @ newline @
     ''- 2: difference = 0.00'' @ newline @ ''- 3: difference = 0.00''"
    by (simp only: perfect_deltas perfect_angleFeedback)
  show ?thesis
    using perfect_deltas a b c d by (intro conjI)
qed

theorem C1_witness:
  "sublist ''Accuracy Score: 77.5%''
     (createFeedbackPrompt numberToString_stub [Fin 0, Fin 45, NaN] (Fin 77.5)
        referencePose practicePose) \<and>
   sublist ''- 1: difference = 45.00''
     (createFeedbackPrompt numberToString_stub [Fin 0, Fin 45, NaN] (Fin 77.5)
        referencePose practicePose) \<and>
   sublist ''- 2: difference = NaN''
     (createFeedbackPrompt numberToString_stub [Fin 0, Fin 45, NaN] (Fin 77.5)
        referencePose practicePose) \<and>
   \<not> sublist ''LEFT_ELBOW'' ''- 1: difference = 45.00'' \<and>
   \<not> sublist ''RIGHT_WRIST'' ''- 2: difference = NaN'' \<and>
   CHR 0x0A \<notin> set ''- 1: difference = 45.00'' \<and>
   (\<exists>a b. ''45.00'' = a @ ''.'' @ b \<and> a \<noteq> [] \<and> length b = 2)"
proof -
  note t0 = C1_prompt_contents [of numberToString_stub "[Fin 0, Fin 45, NaN]" "Fin 77.5"
      referencePose practicePose]
  note clean = t0 [THEN conjunct2, THEN conjunct2, THEN conjunct1, rule_format]
  note t = t0 [THEN conjunct2, THEN conjunct2, THEN conjunct2]
  have e1: "''- '' @ natToString 1 @ '': difference = '' @
               toFixed numberToString_stub 2 ([Fin 0, Fin 45, NaN] ! 1) =
             ''- 1: difference = 45.00''"
    by (simp add: toFixed_45 natToString_digit digitChar_def)
  have e2: "''- '' @ natToString 2 @ '': difference = '' @
               toFixed numberToString_stub 2 ([Fin 0, Fin 45, NaN] ! 2) =
             ''- 2: difference = NaN''"
    by (simp add: toFixed_NaN natToString_digit digitChar_def)
  have i1: "(1::nat) < length [Fin 0, Fin 45, NaN]" and i2: "(2::nat) < length [Fin 0, Fin 45, NaN]"
    by simp_all
  have v1: "[Fin 0, Fin 45, NaN] ! 1 = NaN \<or>
            (\<exists>x. [Fin 0, Fin 45, NaN] ! 1 = Fin x \<and> \<bar>x\<bar> < 10 ^ 21)"
    by simp
  have v2: "[Fin 0, Fin 45, NaN] ! 2 = NaN \<or>
            (\<exists>x. [Fin 0, Fin 45, NaN] ! 2 = Fin x \<and> \<bar>x\<bar> < 10 ^ 21)"
    by simp
  have acc: "sublist ''Accuracy Score: 77.5%''
     (createFeedbackPrompt numberToString_stub [Fin 0, Fin 45, NaN] (Fin 77.5)
        referencePose practicePose)"
  proof -
    have e: "''Accuracy Score: '' @ toFixed numberToString_stub 1 (Fin 77.5) @ ''%'' =
             ''Accuracy Score: 77.5%''"
      unfolding toFixed_775 by simp
    show ?thesis
      using t [THEN conjunct1] by (simp only: e)
  qed
  have l1: "sublist ''- 1: difference = 45.00''
     (createFeedbackPrompt numberToString_stub [Fin 0, Fin 45, NaN] (Fin 77.5)
        referencePose practicePose)"
    using t [THEN conjunct2, THEN conjunct1, rule_format, OF i1] by (simp only: e1)
  have l2: "sublist ''- 2: difference = NaN''
     (createFeedbackPrompt numberToString_stub [Fin 0, Fin 45, NaN] (Fin 77.5)
        referencePose practicePose)"
    using t [THEN conjunct2, THEN conjunct1, rule_format, OF i2] by (simp only: e2)
  have n1: "\<not> sublist ''LEFT_ELBOW'' ''- 1: difference = 45.00''"
    using clean [OF i1 v1, THEN conjunct2, rule_format, of LEFT_ELBOW]
    unfolding e1 landmarkName.simps by assumption
  have n2: "\<not> sublist ''RIGHT_WRIST'' ''- 2: difference = NaN''"
    using clean [OF i2 v2, THEN conjunct2, rule_format, of RIGHT_WRIST]
    unfolding e2 landmarkName.simps by assumption
  have nl: "CHR 0x0A \<notin> set ''- 1: difference = 45.00''"
    using clean [OF i1 v1, THEN conjunct1] unfolding e1 by assumption
  have "\<exists>a b. toFixed numberToString_stub 2 (Fin 45) =
                 (if (45::real) < 0 then ''-'' else []) @ a @ ''.'' @ b \<and>
             a \<noteq> [] \<and> length b = 2 \<and> set (a @ b) \<subseteq> set ''0123456789'' \<and>
             digitsValue (a @ b) = nat \<lfloor>\<bar>45::real\<bar> * 10 ^ 2 + 1 / 2\<rfloor>"
    using t [THEN conjunct2, THEN conjunct2, THEN conjunct2, THEN conjunct2, THEN conjunct2,
        rule_format, of 45 2]
    by simp
  then have fmt: "\<exists>a b. ''45.00'' = a @ ''.'' @ b \<and> a \<noteq> [] \<and> length b = 2"
    by (simp only: toFixed_45) auto
  show ?thesis
    using acc l1 l2 n1 n2 nl fmt by (intro conjI)
qed

end
